theory Spec2Isabelle
  imports Complex_Main "HOL-Library.Char_ord" "HOL-Library.List_Lexorder"
    "HOL-Library.Product_Lexorder"
begin

section \<open>Numbers of the data frames\<close>

text \<open>
  Every numeric column of the program is a pandas float column.  A cell is a finite
  number, one of the two infinities, or not-a-number.  Finite values are kept exact
  (rationals): rounding, overflow and the sign of zero are not part of the model.
  Division never raises (numpy semantics): a finite nonzero number divided by zero is
  an infinity, zero divided by zero is not-a-number.

  Since the program rounds where this theory does not, the theorems below state of
  finite numbers only what rounding leaves alone: which operations produce a cell, the
  order and the sign of cells, and that a finite number minus itself is 0.  An equality
  between the results of two different computations is stated only under the hypothesis
  that it holds.  The example sheets are evaluated in the exact arithmetic of this
  theory.
\<close>

datatype flt = Fin rat | PInf | NInf | NaN

fun fneg :: "flt \<Rightarrow> flt" where
  "fneg (Fin a) = Fin (- a)"
| "fneg PInf = NInf"
| "fneg NInf = PInf"
| "fneg NaN = NaN"

fun fadd :: "flt \<Rightarrow> flt \<Rightarrow> flt" where
  "fadd (Fin a) (Fin b) = Fin (a + b)"
| "fadd (Fin a) PInf = PInf"
| "fadd (Fin a) NInf = NInf"
| "fadd PInf (Fin b) = PInf"
| "fadd PInf PInf = PInf"
| "fadd PInf NInf = NaN"
| "fadd NInf (Fin b) = NInf"
| "fadd NInf NInf = NInf"
| "fadd NInf PInf = NaN"
| "fadd NaN y = NaN"
| "fadd x NaN = NaN"

definition fsub :: "flt \<Rightarrow> flt \<Rightarrow> flt" where
  "fsub x y = fadd x (fneg y)"

text \<open>An infinity with the sign of a finite factor; zero times infinity is not-a-number.\<close>

definition inf_signo :: "rat \<Rightarrow> flt" where
  "inf_signo a = (if a = 0 then NaN else if 0 < a then PInf else NInf)"

fun fmul :: "flt \<Rightarrow> flt \<Rightarrow> flt" where
  "fmul (Fin a) (Fin b) = Fin (a * b)"
| "fmul (Fin a) PInf = inf_signo a"
| "fmul (Fin a) NInf = inf_signo (- a)"
| "fmul PInf (Fin b) = inf_signo b"
| "fmul NInf (Fin b) = inf_signo (- b)"
| "fmul PInf PInf = PInf"
| "fmul PInf NInf = NInf"
| "fmul NInf PInf = NInf"
| "fmul NInf NInf = PInf"
| "fmul NaN y = NaN"
| "fmul x NaN = NaN"

fun fdiv :: "flt \<Rightarrow> flt \<Rightarrow> flt" where
  "fdiv (Fin a) (Fin b) = (if b = 0 then inf_signo a else Fin (a / b))"
| "fdiv (Fin a) PInf = Fin 0"
| "fdiv (Fin a) NInf = Fin 0"
| "fdiv PInf (Fin b) = (if 0 \<le> b then PInf else NInf)"
| "fdiv NInf (Fin b) = (if 0 \<le> b then NInf else PInf)"
| "fdiv PInf PInf = NaN"
| "fdiv PInf NInf = NaN"
| "fdiv NInf PInf = NaN"
| "fdiv NInf NInf = NaN"
| "fdiv NaN y = NaN"
| "fdiv x NaN = NaN"

text \<open>Comparison: every comparison with not-a-number is false.\<close>

fun flt_lt :: "flt \<Rightarrow> flt \<Rightarrow> bool" where
  "flt_lt (Fin a) (Fin b) = (a < b)"
| "flt_lt (Fin a) PInf = True"
| "flt_lt NInf (Fin b) = True"
| "flt_lt NInf PInf = True"
| "flt_lt x y = False"

definition flt_gt :: "flt \<Rightarrow> flt \<Rightarrow> bool" where
  "flt_gt x y = flt_lt y x"

fun flt_le :: "flt \<Rightarrow> flt \<Rightarrow> bool" where
  "flt_le NaN y = False"
| "flt_le x NaN = False"
| "flt_le x y = (\<not> flt_lt y x)"

fun es_finito :: "flt \<Rightarrow> bool" where
  "es_finito (Fin a) = True"
| "es_finito x = False"

fun es_nan :: "flt \<Rightarrow> bool" where
  "es_nan NaN = True"
| "es_nan x = False"

text \<open>
  Python's built-in \<open>max(x, y)\<close> and \<open>min(x, y)\<close> on two arguments keep the first
  argument unless the second compares strictly greater (smaller).
\<close>

definition py_max :: "flt \<Rightarrow> flt \<Rightarrow> flt" where
  "py_max x y = (if flt_gt y x then y else x)"

definition py_min :: "flt \<Rightarrow> flt \<Rightarrow> flt" where
  "py_min x y = (if flt_lt y x then y else x)"

text \<open>\<open>Series.fillna(v)\<close>, \<open>Series.replace(0, 1)\<close> and \<open>Series.clip(lower=0)\<close> on one cell.\<close>

definition fillna :: "flt \<Rightarrow> flt \<Rightarrow> flt" where
  "fillna v x = (if es_nan x then v else x)"

definition replace_0_1 :: "flt \<Rightarrow> flt" where
  "replace_0_1 x = (if x = Fin 0 then Fin 1 else x)"

definition clip_lower_0 :: "flt \<Rightarrow> flt" where
  "clip_lower_0 x = (if flt_lt x (Fin 0) then Fin 0 else x)"

text \<open>
  \<open>sum\<close> of a column or of a group skips not-a-number cells (\<open>skipna\<close> is the default)
  and is 0 on an empty or all-missing group; \<open>first\<close> of a group is its first cell
  that is not missing.
\<close>

fun suma :: "flt list \<Rightarrow> flt" where
  "suma [] = Fin 0"
| "suma (x # xs) = (if es_nan x then suma xs else fadd x (suma xs))"

fun primero :: "flt list \<Rightarrow> flt" where
  "primero [] = NaN"
| "primero (x # xs) = (if es_nan x then primero xs else x)"

text \<open>
  The sort position of a cell: \<open>sort_values\<close> orders numbers ascending and puts
  missing values last.
\<close>

fun clave_orden :: "flt \<Rightarrow> nat \<times> rat" where
  "clave_orden NInf = (0, 0)"
| "clave_orden (Fin a) = (1, a)"
| "clave_orden PInf = (2, 0)"
| "clave_orden NaN = (3, 0)"

section \<open>Text cells\<close>

text \<open>
  A text is a list of HOL characters, that is of code points below 256.  In that range
  Python's \<open>str.isspace\<close> holds of the codes 9 to 13, 28 to 32, 133 (U+0085) and 160
  (U+00A0); \<open>str.strip()\<close>, which pandas' \<open>.str.strip()\<close> applies to each cell, removes
  these at both ends.
\<close>

definition es_espacio :: "char \<Rightarrow> bool" where
  "es_espacio c = (let n = (of_char c :: nat)
                   in (9 \<le> n \<and> n \<le> 13) \<or> (28 \<le> n \<and> n \<le> 32) \<or> n = 133 \<or> n = 160)"

definition strip :: "string \<Rightarrow> string" where
  "strip s = rev (dropWhile es_espacio (rev (dropWhile es_espacio s)))"

text \<open>
  \<open>float\<close> on a text first turns every white space character above code 127 into a
  blank and then skips the ASCII white space (codes 9 to 13 and 32) at both ends: it
  skips the codes 9 to 13, 32, 133 and 160, and not the codes 28 to 31.
\<close>

definition es_espacio_float :: "char \<Rightarrow> bool" where
  "es_espacio_float c = (let n = (of_char c :: nat)
                         in (9 \<le> n \<and> n \<le> 13) \<or> n = 32 \<or> n = 133 \<or> n = 160)"

definition strip_float :: "string \<Rightarrow> string" where
  "strip_float s = rev (dropWhile es_espacio_float (rev (dropWhile es_espacio_float s)))"

section \<open>Joins and groups\<close>

text \<open>
  \<open>left.merge(right, on=key, how='left')\<close>: every left row, in order, paired with each
  right row of the same key, in the right table's order; a left row without a match is
  kept once, with the right columns missing.
\<close>

definition merge_left :: "('a \<Rightarrow> string) \<Rightarrow> ('b \<Rightarrow> string) \<Rightarrow> 'a list \<Rightarrow> 'b list \<Rightarrow> ('a \<times> 'b option) list" where
  "merge_left ka kb xs ys =
     concat (map (\<lambda>x. case filter (\<lambda>y. kb y = ka x) ys of
                          [] \<Rightarrow> [(x, None)]
                        | ms \<Rightarrow> map (\<lambda>y. (x, Some y)) ms) xs)"

text \<open>The keys of \<open>groupby(col)\<close>: the distinct values of the column, sorted.\<close>

definition claves :: "string list \<Rightarrow> string list" where
  "claves ks = sort (remdups ks)"

section \<open>Input tables and the material base\<close>

record fila_prod =
  prod_Material :: string
  prod_Semana :: string
  prod_Demanda_semanal :: flt

record fila_cap =
  cap_Material :: string
  cap_Unidades_por_hora :: flt
  cap_Unidades_por_pallet :: flt
  cap_Inventario_inicial :: flt
  cap_Valor_inventario_inicial :: flt
  cap_Costo_variable_unitario :: flt
  cap_Inventario_promedio :: flt

record fila_base =
  Material :: string
  Semana :: string
  Semana_Num :: flt
  Demanda_semanal :: flt
  Unidades_por_hora :: flt
  Unidades_por_pallet :: flt
  Inventario_inicial :: flt
  Valor_inventario_inicial :: flt
  Costo_variable_unitario :: flt
  Inventario_promedio :: flt
  Horas_Necesarias :: flt

text \<open>
  The optional capacity columns (\<open>nuevas_cols\<close>): a column that the sheet does not have
  is created and filled with 0.  \<open>cols\<close> is \<open>df_cap.columns\<close>.
\<close>

definition completar_cap :: "string list \<Rightarrow> fila_cap \<Rightarrow> fila_cap" where
  "completar_cap cols c =
     c\<lparr> cap_Material := strip (cap_Material c),
        cap_Unidades_por_pallet :=
          (if ''Unidades por pallet'' \<in> set cols then cap_Unidades_por_pallet c else Fin 0),
        cap_Inventario_inicial :=
          (if ''Inventario inicial'' \<in> set cols then cap_Inventario_inicial c else Fin 0),
        cap_Valor_inventario_inicial :=
          (if ''Valor inventario inicial'' \<in> set cols then cap_Valor_inventario_inicial c else Fin 0),
        cap_Costo_variable_unitario :=
          (if ''Costo variable unitario'' \<in> set cols then cap_Costo_variable_unitario c else Fin 0),
        cap_Inventario_promedio :=
          (if ''Inventario promedio'' \<in> set cols then cap_Inventario_promedio c else Fin 0) \<rparr>"

text \<open>
  One row of \<open>df_base_materiales\<close>: a demand row joined with the capacity row of its
  material (all capacity columns missing when the material has none), the week trimmed
  and read as a number by \<open>to_numeric\<close> (pandas' parser, a parameter here), and the
  required hours of line 176, \<open>Demanda semanal / Unidades por hora\<close>.
\<close>

definition fila_unida :: "(string \<Rightarrow> flt) \<Rightarrow> fila_prod \<times> fila_cap option \<Rightarrow> fila_base" where
  "fila_unida to_numeric pc =
     (let p = fst pc;
          c = (case snd pc of
                 Some c \<Rightarrow> c
               | None \<Rightarrow> \<lparr> cap_Material = prod_Material p, cap_Unidades_por_hora = NaN,
                           cap_Unidades_por_pallet = NaN, cap_Inventario_inicial = NaN,
                           cap_Valor_inventario_inicial = NaN, cap_Costo_variable_unitario = NaN,
                           cap_Inventario_promedio = NaN \<rparr>)
      in \<lparr> Material = prod_Material p,
           Semana = strip (prod_Semana p),
           Semana_Num = to_numeric (strip (prod_Semana p)),
           Demanda_semanal = prod_Demanda_semanal p,
           Unidades_por_hora = cap_Unidades_por_hora c,
           Unidades_por_pallet = cap_Unidades_por_pallet c,
           Inventario_inicial = cap_Inventario_inicial c,
           Valor_inventario_inicial = cap_Valor_inventario_inicial c,
           Costo_variable_unitario = cap_Costo_variable_unitario c,
           Inventario_promedio = cap_Inventario_promedio c,
           Horas_Necesarias = fdiv (prod_Demanda_semanal p) (cap_Unidades_por_hora c) \<rparr>)"

definition construir_base :: "(string \<Rightarrow> flt) \<Rightarrow> fila_prod list \<Rightarrow> string list \<Rightarrow> fila_cap list \<Rightarrow> fila_base list" where
  "construir_base to_numeric df_prod cols df_cap =
     map (fila_unida to_numeric)
       (merge_left prod_Material cap_Material
          (map (\<lambda>p. p\<lparr> prod_Material := strip (prod_Material p) \<rparr>) df_prod)
          (map (completar_cap cols) df_cap))"

text \<open>\<open>df.groupby('Material')[col].first().sum()\<close>, lines 170 and 171.\<close>

definition suma_primeros :: "(fila_base \<Rightarrow> flt) \<Rightarrow> fila_base list \<Rightarrow> flt" where
  "suma_primeros col df =
     suma (map (\<lambda>m. primero (map col (filter (\<lambda>r. Material r = m) df)))
             (claves (map Material df)))"

text \<open>What \<open>calcular_escenario\<close> reads from the enclosing scope.\<close>

record entorno =
  df_base_materiales :: "fila_base list"
  horas_por_turno :: flt
  costo_fijo_param :: flt
  tasa_costo_capital :: flt
  suma_inv_promedio_objetivo :: flt
  suma_valor_inicial_maestro :: flt

section \<open>Scenario allocator\<close>

record fila_resumen =
  rs_Semana :: string
  rs_Total_Horas_Req_Semana :: flt
  rs_Turnos_disponibles :: flt
  rs_Horas_Capacidad_Total :: flt
  rs_Diferencia_Horas :: flt

text \<open>\<open>df_main.groupby('Semana')['Horas_Necesarias'].sum()\<close>.\<close>

definition total_horas_req :: "fila_base list \<Rightarrow> string \<Rightarrow> flt" where
  "total_horas_req df s = suma (map Horas_Necesarias (filter (\<lambda>r. Semana r = s) df))"

definition fila_resumen_de :: "flt \<Rightarrow> string \<Rightarrow> flt \<Rightarrow> flt \<Rightarrow> fila_resumen" where
  "fila_resumen_de h s requeridas turnos =
     \<lparr> rs_Semana = s,
       rs_Total_Horas_Req_Semana = requeridas,
       rs_Turnos_disponibles = turnos,
       rs_Horas_Capacidad_Total = fmul turnos h,
       rs_Diferencia_Horas = fsub (fmul turnos h) requeridas \<rparr>"

text \<open>
  Lines 181 to 191.  In demand mode the shifts are the required hours divided by the
  hours per shift; otherwise they come from the availability series by a left join on
  the week, a week without availability getting 0.
\<close>

definition resumen_semanal :: "entorno \<Rightarrow> (string \<times> flt) list \<Rightarrow> bool \<Rightarrow> fila_resumen list" where
  "resumen_semanal E df_disp_scenario modo_demanda =
     (let df_main = df_base_materiales E;
          h = horas_por_turno E;
          totales = map (\<lambda>s. (s, total_horas_req df_main s)) (claves (map Semana df_main))
      in if modo_demanda
         then map (\<lambda>st. fila_resumen_de h (fst st) (snd st) (fdiv (snd st) h)) totales
         else map (\<lambda>sd. fila_resumen_de h (fst (fst sd)) (snd (fst sd))
                          (fillna (Fin 0) (case snd sd of None \<Rightarrow> NaN | Some d \<Rightarrow> snd d)))
                (merge_left fst fst totales df_disp_scenario))"

record fila_asig = fila_base +
  Total_Horas_Req_Semana :: flt
  Turnos_disponibles :: flt
  Horas_Capacidad_Total :: flt
  Diferencia_Horas :: flt
  Participacion :: flt
  Horas_Ajuste :: flt
  Horas_Finales_Asignadas :: flt
  Unidades_A_Producir :: flt
  Unidades_Ajuste :: flt
  Costo_variable_total :: flt
  Pallets_Requeridos :: flt
  Pallets_Extra :: flt

text \<open>Lines 193 to 208 on one row of \<open>df_main\<close> joined with its week's summary row.\<close>

definition asignar :: "fila_base \<times> fila_resumen option \<Rightarrow> fila_asig" where
  "asignar rw =
     (let r = fst rw;
          requeridas = (case snd rw of None \<Rightarrow> NaN | Some w \<Rightarrow> rs_Total_Horas_Req_Semana w);
          turnos = (case snd rw of None \<Rightarrow> NaN | Some w \<Rightarrow> rs_Turnos_disponibles w);
          capacidad = (case snd rw of None \<Rightarrow> NaN | Some w \<Rightarrow> rs_Horas_Capacidad_Total w);
          diferencia = (case snd rw of None \<Rightarrow> NaN | Some w \<Rightarrow> rs_Diferencia_Horas w);
          participacion = fillna (Fin 0) (fdiv (Horas_Necesarias r) requeridas);
          ajuste = fmul participacion diferencia;
          finales = py_max (fadd (Horas_Necesarias r) ajuste) (Fin 0);
          unidades = fmul finales (Unidades_por_hora r);
          unidades_ajuste = fmul ajuste (Unidades_por_hora r);
          por_pallet = replace_0_1 (Unidades_por_pallet r)
      in fila_base.extend (r\<lparr> Unidades_por_pallet := por_pallet \<rparr>)
           (fila_asig.fields requeridas turnos capacidad diferencia participacion ajuste finales
              unidades unidades_ajuste (fmul unidades (Costo_variable_unitario r))
              (fdiv unidades por_pallet) (fdiv unidades_ajuste por_pallet)))"

definition asignacion :: "entorno \<Rightarrow> (string \<times> flt) list \<Rightarrow> bool \<Rightarrow> fila_asig list" where
  "asignacion E df_disp_scenario modo_demanda =
     map asignar (merge_left Semana rs_Semana (df_base_materiales E)
                    (resumen_semanal E df_disp_scenario modo_demanda))"

text \<open>
  Lines 210 to 215: the fixed cost of a week spread over the units produced in it, 0 when
  nothing is produced, and the unit total cost of each row.
\<close>

definition costo_fijo_unitario_de :: "flt \<Rightarrow> flt \<Rightarrow> flt" where
  "costo_fijo_unitario_de costo_fijo unidades =
     (if flt_gt unidades (Fin 0) then fdiv costo_fijo unidades else Fin 0)"

definition tabla_costos :: "flt \<Rightarrow> fila_asig list \<Rightarrow> (string \<times> flt) list" where
  "tabla_costos costo_fijo df =
     map (\<lambda>s. (s, costo_fijo_unitario_de costo_fijo
                     (suma (map Unidades_A_Producir (filter (\<lambda>r. Semana r = s) df)))))
       (claves (map Semana df))"

record fila_costo = fila_asig +
  Costo_fijo_unitario :: flt
  Costo_unitario_total :: flt

definition con_costo :: "fila_asig \<times> (string \<times> flt) option \<Rightarrow> fila_costo" where
  "con_costo rc =
     (let r = fst rc;
          cfu = (case snd rc of None \<Rightarrow> NaN | Some c \<Rightarrow> snd c)
      in fila_asig.extend r
           (fila_costo.fields cfu (fadd (Costo_variable_unitario r) cfu)))"

definition costeo :: "flt \<Rightarrow> fila_asig list \<Rightarrow> fila_costo list" where
  "costeo costo_fijo df = map con_costo (merge_left Semana fst df (tabla_costos costo_fijo df))"

text \<open>Line 217: rows ordered by material, then by week number, missing week numbers last.\<close>

definition ordenar :: "fila_costo list \<Rightarrow> fila_costo list" where
  "ordenar df = sort_key (\<lambda>r. (Material r, clave_orden (Semana_Num r))) df"

section \<open>Inventory rollforward\<close>

record fila_inv = fila_costo +
  Inv_Inicial_Und :: flt
  Inv_Inicial_Valor :: flt
  Costo_Promedio_Ponderado :: flt
  Inv_Final_Und :: flt
  Inv_Final_Valor :: flt
  Costo_Mercancia_Vendida :: flt

text \<open>The three variables that the loop of lines 227 to 262 carries from row to row.\<close>

record estado =
  prev_material :: "string option"
  prev_final_und :: flt
  prev_final_val :: flt

definition estado_inicial :: estado where
  "estado_inicial = \<lparr> prev_material = None, prev_final_und = Fin 0, prev_final_val = Fin 0 \<rparr>"

text \<open>The local variables of the loop body, as functions of the carried state and the row.\<close>

definition qty_ini :: "estado \<Rightarrow> fila_costo \<Rightarrow> flt" where
  "qty_ini st row =
     (if Some (Material row) \<noteq> prev_material st then Inventario_inicial row
      else prev_final_und st)"

definition val_ini :: "estado \<Rightarrow> fila_costo \<Rightarrow> flt" where
  "val_ini st row =
     (if Some (Material row) \<noteq> prev_material st then Valor_inventario_inicial row
      else prev_final_val st)"

definition val_prod :: "fila_costo \<Rightarrow> flt" where
  "val_prod row = fmul (Unidades_A_Producir row) (Costo_unitario_total row)"

definition total_qty :: "estado \<Rightarrow> fila_costo \<Rightarrow> flt" where
  "total_qty st row = fadd (qty_ini st row) (Unidades_A_Producir row)"

definition total_val :: "estado \<Rightarrow> fila_costo \<Rightarrow> flt" where
  "total_val st row = fadd (val_ini st row) (val_prod row)"

definition wac :: "estado \<Rightarrow> fila_costo \<Rightarrow> flt" where
  "wac st row =
     (if flt_gt (total_qty st row) (Fin 0) then fdiv (total_val st row) (total_qty st row)
      else Costo_unitario_total row)"

definition qty_sold :: "estado \<Rightarrow> fila_costo \<Rightarrow> flt" where
  "qty_sold st row = py_min (Demanda_semanal row) (total_qty st row)"

definition cogs_total :: "estado \<Rightarrow> fila_costo \<Rightarrow> flt" where
  "cogs_total st row = fmul (qty_sold st row) (wac st row)"

definition qty_final :: "estado \<Rightarrow> fila_costo \<Rightarrow> flt" where
  "qty_final st row = fsub (total_qty st row) (qty_sold st row)"

definition val_final :: "estado \<Rightarrow> fila_costo \<Rightarrow> flt" where
  "val_final st row = fmul (qty_final st row) (wac st row)"

text \<open>The row written by lines 253 to 258 and the state left by lines 260 to 262.\<close>

definition fila_escrita :: "estado \<Rightarrow> fila_costo \<Rightarrow> fila_inv" where
  "fila_escrita st row =
     fila_costo.extend row
       (fila_inv.fields (qty_ini st row) (val_ini st row) (wac st row)
          (qty_final st row) (val_final st row) (cogs_total st row))"

definition estado_siguiente :: "estado \<Rightarrow> fila_costo \<Rightarrow> estado" where
  "estado_siguiente st row =
     \<lparr> prev_material = Some (Material row),
       prev_final_und = qty_final st row,
       prev_final_val = val_final st row \<rparr>"

fun bucle :: "estado \<Rightarrow> fila_costo list \<Rightarrow> fila_inv list" where
  "bucle st [] = []"
| "bucle st (row # filas) = fila_escrita st row # bucle (estado_siguiente st row) filas"

text \<open>The state in which the loop reaches row \<open>i\<close>.\<close>

fun estado_en :: "estado \<Rightarrow> fila_costo list \<Rightarrow> nat \<Rightarrow> estado" where
  "estado_en st [] i = st"
| "estado_en st (row # filas) 0 = st"
| "estado_en st (row # filas) (Suc i) = estado_en (estado_siguiente st row) filas i"

record fila_final = fila_inv +
  Escenario :: string

text \<open>The table that the loop walks (lines 180 to 217), and the table it leaves.\<close>

definition pre_rollforward :: "entorno \<Rightarrow> (string \<times> flt) list \<Rightarrow> bool \<Rightarrow> fila_costo list" where
  "pre_rollforward E df_disp_scenario modo_demanda =
     ordenar (costeo (costo_fijo_param E) (asignacion E df_disp_scenario modo_demanda))"

definition rollforward :: "entorno \<Rightarrow> (string \<times> flt) list \<Rightarrow> bool \<Rightarrow> fila_inv list" where
  "rollforward E df_disp_scenario modo_demanda =
     bucle estado_inicial (pre_rollforward E df_disp_scenario modo_demanda)"

section \<open>Weekly summary\<close>

record fila_grupo =
  sem_Semana :: string
  sem_Unidades_A_Producir :: flt
  sem_Pallets_Requeridos :: flt
  sem_Pallets_Extra :: flt
  sem_Turnos_disponibles :: flt
  sem_Total_Horas_Req_Semana :: flt
  sem_Diferencia_Horas :: flt
  sem_Semana_Num :: flt
  sem_Costo_variable_total :: flt
  sem_Costo_Mercancia_Vendida :: flt
  sem_Inv_Final_Valor :: flt
  sem_Inv_Final_Und :: flt

text \<open>Lines 264 to 270: one group per week, each column summed or taken from the first row.\<close>

definition agrupar :: "fila_inv list \<Rightarrow> string \<Rightarrow> fila_grupo" where
  "agrupar df s =
     (let g = filter (\<lambda>r. Semana r = s) df
      in \<lparr> sem_Semana = s,
           sem_Unidades_A_Producir = suma (map Unidades_A_Producir g),
           sem_Pallets_Requeridos = suma (map Pallets_Requeridos g),
           sem_Pallets_Extra = suma (map Pallets_Extra g),
           sem_Turnos_disponibles = primero (map Turnos_disponibles g),
           sem_Total_Horas_Req_Semana = primero (map Total_Horas_Req_Semana g),
           sem_Diferencia_Horas = primero (map Diferencia_Horas g),
           sem_Semana_Num = primero (map Semana_Num g),
           sem_Costo_variable_total = suma (map Costo_variable_total g),
           sem_Costo_Mercancia_Vendida = suma (map Costo_Mercancia_Vendida g),
           sem_Inv_Final_Valor = suma (map Inv_Final_Valor g),
           sem_Inv_Final_Und = suma (map Inv_Final_Und g) \<rparr>)"

record fila_semanal = fila_grupo +
  sem_Costo_fijo_total :: flt
  sem_Costo_fijo_unitario :: flt
  sem_Turnos_necesarios :: flt
  sem_Costo_total_produccion :: flt
  sem_Costo_Capital :: flt
  sem_Inv_Previo_Calculo :: flt
  sem_Variacion_inventario :: flt
  sem_EBITDA :: flt
  sem_Flujo_de_caja :: flt
  sem_Costo_Unitario_Promedio_Inventario :: flt
  sem_Valor_Inventario :: flt
  sem_Escenario :: string

text \<open>
  Lines 274 to 293 on one weekly row; \<open>previo\<close> is the cell of
  \<open>Inv_Final_Valor.shift(1).fillna(suma_valor_inicial_maestro)\<close> on that row.
\<close>

definition derivar :: "entorno \<Rightarrow> string \<Rightarrow> fila_grupo \<times> flt \<Rightarrow> fila_semanal" where
  "derivar E nombre_escenario gp =
     (let g = fst gp;
          previo = snd gp;
          promedio = (if flt_gt (sem_Inv_Final_Und g) (Fin 0)
                      then fdiv (sem_Inv_Final_Valor g) (sem_Inv_Final_Und g) else Fin 0);
          variacion = fsub (sem_Inv_Final_Valor g) previo
      in fila_grupo.extend g
           (fila_semanal.fields
              (costo_fijo_param E)
              (costo_fijo_unitario_de (costo_fijo_param E) (sem_Unidades_A_Producir g))
              (fdiv (sem_Total_Horas_Req_Semana g) (horas_por_turno E))
              (fadd (costo_fijo_param E) (sem_Costo_variable_total g))
              (clip_lower_0 (fmul (sem_Inv_Final_Valor g) (tasa_costo_capital E)))
              previo
              variacion
              (sem_Costo_Mercancia_Vendida g)
              (fsub (sem_Costo_Mercancia_Vendida g) variacion)
              promedio
              (fmul promedio (suma_inv_promedio_objetivo E))
              nombre_escenario))"

definition resumen_agrupado :: "entorno \<Rightarrow> string \<Rightarrow> fila_inv list \<Rightarrow> fila_semanal list" where
  "resumen_agrupado E nombre_escenario df =
     (let g = sort_key (\<lambda>r. clave_orden (sem_Semana_Num r))
                (map (agrupar df) (claves (map Semana df)));
          previos = map (fillna (suma_valor_inicial_maestro E))
                      (NaN # butlast (map sem_Inv_Final_Valor g))
      in map (derivar E nombre_escenario) (zip g previos))"

section \<open>The scenario function and the three runs\<close>

definition calcular_escenario :: "entorno \<Rightarrow> string \<Rightarrow> (string \<times> flt) list \<Rightarrow> bool \<Rightarrow> fila_final list \<times> fila_semanal list" where
  "calcular_escenario E nombre_escenario df_disp_scenario modo_demanda =
     (let df_final = rollforward E df_disp_scenario modo_demanda
      in (map (\<lambda>r. fila_inv.extend r (fila_final.fields nombre_escenario)) df_final,
          resumen_agrupado E nombre_escenario df_final))"

text \<open>
  The availability sheet: its week column and the two shift columns, each of which the
  sheet may lack.
\<close>

record df_disp =
  disp_Semana :: "string list"
  disp_Paro_programado :: "flt list option"
  disp_No_paro :: "flt list option"

text \<open>
  Lines 298 to 316.  The demand-driven run passes no availability (\<open>None\<close> in the source,
  which that mode never reads; the empty series here).
\<close>

definition ejecucion :: "entorno \<Rightarrow> df_disp \<Rightarrow> (fila_final list \<times> fila_semanal list) list" where
  "ejecucion E df_disp_raw =
     (case disp_Paro_programado df_disp_raw of
        None \<Rightarrow> []
      | Some col \<Rightarrow> [calcular_escenario E ''Paro Programado''
                       (zip (map strip (disp_Semana df_disp_raw)) col) False])
     @ (case disp_No_paro df_disp_raw of
        None \<Rightarrow> []
      | Some col \<Rightarrow> [calcular_escenario E ''No Paro (Full)''
                       (zip (map strip (disp_Semana df_disp_raw)) col) False])
     @ [calcular_escenario E ''Siguiendo Demanda'' [] True]"

definition df_master_materiales :: "entorno \<Rightarrow> df_disp \<Rightarrow> fila_final list" where
  "df_master_materiales E df_disp_raw = concat (map fst (ejecucion E df_disp_raw))"

definition df_master_semanal :: "entorno \<Rightarrow> df_disp \<Rightarrow> fila_semanal list" where
  "df_master_semanal E df_disp_raw = concat (map snd (ejecucion E df_disp_raw))"

text \<open>
  The scenario names of the runs that lines 304 to 316 make, read off the columns of the
  availability sheet.
\<close>

definition nombres_ejecutados :: "df_disp \<Rightarrow> string set" where
  "nombres_ejecutados d =
     (if disp_Paro_programado d = None then {} else {''Paro Programado''})
     \<union> (if disp_No_paro d = None then {} else {''No Paro (Full)''})
     \<union> {''Siguiendo Demanda''}"

section \<open>Scenario comparison\<close>

datatype error = KeyError | IndexError

record fila_comp =
  tc_Escenario :: string
  tc_CMV_Total :: flt
  tc_EBITDA_Total :: flt
  tc_Costo_Capital_Total :: flt

text \<open>Line 322: the three columns summed per scenario, scenarios in sorted order.\<close>

definition totales_escenario :: "fila_semanal list \<Rightarrow> fila_comp list" where
  "totales_escenario df =
     map (\<lambda>e. let g = filter (\<lambda>r. sem_Escenario r = e) df
               in \<lparr> tc_Escenario = e,
                    tc_CMV_Total = suma (map sem_Costo_Mercancia_Vendida g),
                    tc_EBITDA_Total = suma (map sem_EBITDA g),
                    tc_Costo_Capital_Total = suma (map sem_Costo_Capital g) \<rparr>)
       (claves (map sem_Escenario df))"

text \<open>\<open>Series.unique()\<close>: the distinct values in order of first appearance.\<close>

definition unique :: "string list \<Rightarrow> string list" where
  "unique xs = rev (remdups (rev xs))"

text \<open>
  Lines 329 to 338: per scenario, the valuation of the last week minus that of the first
  week, the weeks ordered by week number.
\<close>

definition delta_escenario :: "fila_semanal list \<Rightarrow> string \<Rightarrow> flt" where
  "delta_escenario df escenario =
     (let df_esc = sort_key (\<lambda>r. clave_orden (sem_Semana_Num r))
                     (filter (\<lambda>r. sem_Escenario r = escenario) df)
      in if df_esc \<noteq> []
         then fsub (sem_Valor_Inventario (last df_esc)) (sem_Valor_Inventario (hd df_esc))
         else Fin 0)"

definition deltas :: "fila_semanal list \<Rightarrow> (string \<times> flt) list" where
  "deltas df = map (\<lambda>e. (e, delta_escenario df e)) (unique (map sem_Escenario df))"

text \<open>\<open>left.merge(right, on=key)\<close>, an inner join.\<close>

definition merge_inner :: "('a \<Rightarrow> string) \<Rightarrow> ('b \<Rightarrow> string) \<Rightarrow> 'a list \<Rightarrow> 'b list \<Rightarrow> ('a \<times> 'b) list" where
  "merge_inner ka kb xs ys =
     concat (map (\<lambda>x. map (\<lambda>y. (x, y)) (filter (\<lambda>y. kb y = ka x) ys)) xs)"

record fila_comparativa = fila_comp +
  tc_Delta_Valor_Inv :: flt
  tc_Impacto_Total_FCL :: flt

text \<open>
  Lines 340 to 347.  With no weekly row at all, \<open>pd.DataFrame(deltas)\<close> has no
  \<open>Escenario\<close> column and the join raises.
\<close>

definition tabla_comparativa :: "fila_semanal list \<Rightarrow> error + fila_comparativa list" where
  "tabla_comparativa df =
     (if deltas df = [] then Inl KeyError
      else Inr (map (\<lambda>td. fila_comp.extend (fst td)
                             (fila_comparativa.fields (snd (snd td))
                                (fadd (fadd (tc_CMV_Total (fst td)) (tc_Costo_Capital_Total (fst td)))
                                   (snd (snd td)))))
                  (merge_inner tc_Escenario fst (totales_escenario df) (deltas df))))"





section \<open>Parameter resolver\<close>

text \<open>
  A cell of the \<open>Valor\<close> column: a number, a text, or another object that \<open>float\<close>
  rejects (a timestamp, say).  \<open>VNone\<close> is Python's \<open>None\<close>, the default of \<open>default\<close>.
\<close>

datatype pyval = VNone | VNum flt | VStr string | VOtro string

text \<open>
  Python's \<open>float\<close> on a text: the white space that \<open>strip_float\<close> removes is
  ignored at both ends; then an optional sign
  and either \<open>inf\<close>, \<open>infinity\<close> or \<open>nan\<close> in any case, or a decimal number
  \<open>digits [. [digits]] | . digits\<close> with an optional exponent; digits may be grouped by
  single underscores.  Anything else is a \<open>ValueError\<close> (\<open>None\<close> here).
\<close>

definition es_digito :: "char \<Rightarrow> bool" where
  "es_digito c = (let n = (of_char c :: nat) in 48 \<le> n \<and> n \<le> 57)"

definition es_digito_o_guion :: "char \<Rightarrow> bool" where
  "es_digito_o_guion c = (es_digito c \<or> c = CHR ''_'')"

fun sin_guiones_dobles :: "string \<Rightarrow> bool" where
  "sin_guiones_dobles (a # b # cs) =
     (\<not> (a = CHR ''_'' \<and> b = CHR ''_'') \<and> sin_guiones_dobles (b # cs))"
| "sin_guiones_dobles cs = True"

definition digitpart_ok :: "string \<Rightarrow> bool" where
  "digitpart_ok seg =
     (seg \<noteq> [] \<and> es_digito (hd seg) \<and> es_digito (last seg) \<and> sin_guiones_dobles seg)"

definition valor_digitos :: "string \<Rightarrow> nat" where
  "valor_digitos seg =
     foldl (\<lambda>a c. 10 * a + (of_char c - 48)) 0 (filter es_digito seg)"

definition minuscula :: "char \<Rightarrow> char" where
  "minuscula c =
     (let n = (of_char c :: nat) in if 65 \<le> n \<and> n \<le> 90 then char_of (n + 32) else c)"

definition quitar_signo :: "string \<Rightarrow> bool \<times> string" where
  "quitar_signo s =
     (case s of
        c # cs \<Rightarrow> if c = CHR ''-'' then (True, cs) else if c = CHR ''+'' then (False, cs)
                  else (False, s)
      | [] \<Rightarrow> (False, s))"

definition leer_exponente :: "string \<Rightarrow> int option" where
  "leer_exponente s =
     (case s of
        [] \<Rightarrow> Some 0
      | c # cs \<Rightarrow>
          if c = CHR ''e'' \<or> c = CHR ''E''
          then (let sg = quitar_signo cs
                in if digitpart_ok (snd sg) \<and> list_all es_digito_o_guion (snd sg)
                   then Some ((if fst sg then - 1 else 1) * int (valor_digitos (snd sg)))
                   else None)
          else None)"

definition escalar :: "rat \<Rightarrow> int \<Rightarrow> rat" where
  "escalar m e = (if 0 \<le> e then m * 10 ^ nat e else m / 10 ^ nat (- e))"

definition leer_numero :: "string \<Rightarrow> rat option" where
  "leer_numero s =
     (let entera = takeWhile es_digito_o_guion s;
          r1 = dropWhile es_digito_o_guion s;
          punto = (r1 \<noteq> [] \<and> hd r1 = CHR ''.'');
          r2 = (if punto then tl r1 else r1);
          decimal = (if punto then takeWhile es_digito_o_guion r2 else []);
          r3 = (if punto then dropWhile es_digito_o_guion r2 else r2)
      in if (entera = [] \<and> decimal = [])
            \<or> (entera \<noteq> [] \<and> \<not> digitpart_ok entera)
            \<or> (decimal \<noteq> [] \<and> \<not> digitpart_ok decimal)
         then None
         else (case leer_exponente r3 of
                 None \<Rightarrow> None
               | Some e \<Rightarrow>
                   Some (escalar
                           (of_nat (valor_digitos entera)
                            + of_nat (valor_digitos decimal)
                              / 10 ^ length (filter es_digito decimal)) e)))"

definition py_float_str :: "string \<Rightarrow> flt option" where
  "py_float_str s =
     (let sg = quitar_signo (strip_float s);
          cuerpo = map minuscula (snd sg)
      in if cuerpo = ''inf'' \<or> cuerpo = ''infinity'' then Some (if fst sg then NInf else PInf)
         else if cuerpo = ''nan'' then Some NaN
         else (case leer_numero (snd sg) of
                 None \<Rightarrow> None
               | Some q \<Rightarrow> Some (Fin (if fst sg then - q else q))))"

definition py_float :: "pyval \<Rightarrow> flt option" where
  "py_float v =
     (case v of VNum x \<Rightarrow> Some x | VStr s \<Rightarrow> py_float_str s | VNone \<Rightarrow> None | VOtro s \<Rightarrow> None)"

text \<open>\<open>str.replace(',', '.')\<close>.\<close>

definition replace_coma :: "string \<Rightarrow> string" where
  "replace_coma s = map (\<lambda>c. if c = CHR '','' then CHR ''.'' else c) s"

record fila_param =
  Parametro :: string
  Valor :: pyval

text \<open>Line 147: in a text value every comma becomes a period; other values are kept.\<close>

definition reemplazar_coma :: "pyval \<Rightarrow> pyval" where
  "reemplazar_coma valor = (case valor of VStr s \<Rightarrow> VStr (replace_coma s) | _ \<Rightarrow> valor)"

text \<open>
  Lines 141 to 149.  The names of the table are trimmed first (line 141); the requested
  name is compared as it is given.  The only call that can fail, \<open>float(valor)\<close>, stands
  under a bare \<open>except\<close>, so the function has no error result.
\<close>

definition obtener_param :: "fila_param list \<Rightarrow> string \<Rightarrow> pyval \<Rightarrow> pyval" where
  "obtener_param df_params nombre default_valor =
     (let fila = filter (\<lambda>r. strip (Parametro r) = nombre) df_params
      in if fila = [] then default_valor
         else (let valor = reemplazar_coma (Valor (hd fila))
               in case py_float valor of Some x \<Rightarrow> VNum x | None \<Rightarrow> valor))"

text \<open>A small parameter sheet.\<close>

definition ej_params_hoja :: "fila_param list" where
  "ej_params_hoja =
     [\<lparr> Parametro = '' Costo fijo '', Valor = VStr ''7,5'' \<rparr>,
      \<lparr> Parametro = ''Costo fijo'', Valor = VNum (Fin 9) \<rparr>,
      \<lparr> Parametro = ''Costo Capital'', Valor = VStr ''1,2,3'' \<rparr>]"

text \<open>
  A sheet with white space that is not a blank: a name that ends in U+00A0, a text value
  that begins with U+00A0, and a text value that begins with the code 28.
\<close>

definition ej_params_espacios :: "fila_param list" where
  "ej_params_espacios =
     [\<lparr> Parametro = ''Costo fijo'' @ [CHR 0xA0], Valor = VNum (Fin 12) \<rparr>,
      \<lparr> Parametro = ''Costo Capital'', Valor = VStr (CHR 0xA0 # ''7,5'') \<rparr>,
      \<lparr> Parametro = ''Horas por turno'', Valor = VStr (CHR 0x1C # ''7'') \<rparr>]"

section \<open>Predicates on cells, rows and loop states\<close>







section \<open>The environment of a run, and example sheets\<close>

text \<open>
  Lines 155 to 176 with the three parameters already resolved to numbers: the material
  base and the two totals taken once per material.
\<close>

definition entorno_de :: "(string \<Rightarrow> flt) \<Rightarrow> fila_prod list \<Rightarrow> string list \<Rightarrow> fila_cap list \<Rightarrow> flt \<Rightarrow> flt \<Rightarrow> flt \<Rightarrow> entorno" where
  "entorno_de to_numeric df_prod cols df_cap h costo_fijo tasa =
     (let b = construir_base to_numeric df_prod cols df_cap
      in \<lparr> df_base_materiales = b,
           horas_por_turno = h,
           costo_fijo_param = costo_fijo,
           tasa_costo_capital = tasa,
           suma_inv_promedio_objetivo = suma_primeros Inventario_promedio b,
           suma_valor_inicial_maestro = suma_primeros Valor_inventario_inicial b \<rparr>)"

text \<open>
  A small workbook: material \<open>A\<close> with demand 100 and 150 in weeks 1 and 2; its units
  per hour and the hours per shift are left open so that the degenerate sheets (a zero
  in either) are instances of the same workbook.
\<close>

definition ej_to_numeric :: "string \<Rightarrow> flt" where
  "ej_to_numeric s = (case py_float_str s of Some x \<Rightarrow> x | None \<Rightarrow> NaN)"

definition ej_prod :: "fila_prod list" where
  "ej_prod =
     [\<lparr> prod_Material = ''A'', prod_Semana = ''1'', prod_Demanda_semanal = Fin 100 \<rparr>,
      \<lparr> prod_Material = ''A'', prod_Semana = ''2'', prod_Demanda_semanal = Fin 150 \<rparr>]"

definition ej_cols :: "string list" where
  "ej_cols = [''Material'', ''Unidades por hora'', ''Unidades por pallet'', ''Inventario inicial'',
              ''Valor inventario inicial'', ''Costo variable unitario'', ''Inventario promedio'']"

definition ej_cap :: "flt \<Rightarrow> fila_cap list" where
  "ej_cap u =
     [\<lparr> cap_Material = ''A'', cap_Unidades_por_hora = u, cap_Unidades_por_pallet = Fin 50,
        cap_Inventario_inicial = Fin 20, cap_Valor_inventario_inicial = Fin 60,
        cap_Costo_variable_unitario = Fin 2, cap_Inventario_promedio = Fin 30 \<rparr>]"

definition ej_entorno :: "flt \<Rightarrow> flt \<Rightarrow> entorno" where
  "ej_entorno u h = entorno_de ej_to_numeric ej_prod ej_cols (ej_cap u) h (Fin 1000) (Fin (1 / 100))"

definition ej_disp :: "(string \<times> flt) list" where
  "ej_disp = [(''1'', Fin 10), (''2'', Fin 10)]"



text \<open>
  The same sheets with one production row of a material \<open>B\<close> that the capacity sheet
  does not have: demand 100 in week 1.
\<close>

definition ej_prod_sin_cap :: "fila_prod list" where
  "ej_prod_sin_cap =
     [\<lparr> prod_Material = ''B'', prod_Semana = ''1'', prod_Demanda_semanal = Fin 100 \<rparr>]"

definition ej_entorno_sin_cap :: entorno where
  "ej_entorno_sin_cap =
     entorno_de ej_to_numeric ej_prod_sin_cap ej_cols (ej_cap (Fin 10)) (Fin 8) (Fin 1000)
       (Fin (1 / 100))"

text \<open>An availability sheet with the column \<open>Paro programado\<close> and without \<open>No paro\<close>.\<close>

definition ej_hoja_disp :: df_disp where
  "ej_hoja_disp = \<lparr> disp_Semana = [''1'', ''2''], disp_Paro_programado = Some [Fin 10, Fin 10],
                     disp_No_paro = None \<rparr>"

section \<open>The example workbook, evaluated\<close>

lemma strip_ej: "strip ''A'' = ''A''" "strip ''1'' = ''1''" "strip ''2'' = ''2''"
  by (simp_all add: strip_def es_espacio_def)

lemma num_ej: "ej_to_numeric ''1'' = Fin 1" "ej_to_numeric ''2'' = Fin 2"
  by (simp_all add: ej_to_numeric_def py_float_str_def strip_float_def es_espacio_float_def quitar_signo_def
      minuscula_def leer_numero_def es_digito_o_guion_def es_digito_def digitpart_ok_def
      leer_exponente_def valor_digitos_def escalar_def Let_def)

lemma ej_base:
  "df_base_materiales (ej_entorno u h) =
     [\<lparr> Material = ''A'', Semana = ''1'', Semana_Num = Fin 1, Demanda_semanal = Fin 100,
        Unidades_por_hora = u, Unidades_por_pallet = Fin 50, Inventario_inicial = Fin 20,
        Valor_inventario_inicial = Fin 60, Costo_variable_unitario = Fin 2,
        Inventario_promedio = Fin 30, Horas_Necesarias = fdiv (Fin 100) u \<rparr>,
      \<lparr> Material = ''A'', Semana = ''2'', Semana_Num = Fin 2, Demanda_semanal = Fin 150,
        Unidades_por_hora = u, Unidades_por_pallet = Fin 50, Inventario_inicial = Fin 20,
        Valor_inventario_inicial = Fin 60, Costo_variable_unitario = Fin 2,
        Inventario_promedio = Fin 30, Horas_Necesarias = fdiv (Fin 150) u \<rparr>]"
  by (simp add: ej_entorno_def entorno_de_def construir_base_def merge_left_def ej_prod_def
      ej_cap_def ej_cols_def completar_cap_def fila_unida_def strip_ej num_ej Let_def)

lemma ej_params:
  "horas_por_turno (ej_entorno u h) = h"
  "costo_fijo_param (ej_entorno u h) = Fin 1000"
  "tasa_costo_capital (ej_entorno u h) = Fin (1 / 100)"
  by (simp_all add: ej_entorno_def entorno_de_def Let_def)

text \<open>
  Three runs of the constrained scenario on the example workbook, each stage evaluated:
  \<open>ejA\<close> with 10 shifts in both weeks, \<open>ejB\<close> with an empty availability sheet
  (no shifts at all), \<open>ejC\<close> with 0 units per hour for the material.
\<close>

lemma ejA_resumen:
  "resumen_semanal (ej_entorno (Fin 10) (Fin 8)) ej_disp False =
     [\<lparr>rs_Semana = ''1'', rs_Total_Horas_Req_Semana = Fin 10,
     rs_Turnos_disponibles = Fin 10, rs_Horas_Capacidad_Total = Fin 80,
     rs_Diferencia_Horas = Fin 70\<rparr>,
     \<lparr>rs_Semana = ''2'', rs_Total_Horas_Req_Semana = Fin 15,
     rs_Turnos_disponibles = Fin 10, rs_Horas_Capacidad_Total = Fin 80,
     rs_Diferencia_Horas = Fin 65\<rparr>]"
  by (simp add: resumen_semanal_def ej_base ej_params ej_disp_def claves_def total_horas_req_def
      merge_left_def fillna_def fila_resumen_de_def fsub_def inf_signo_def Let_def)

lemma ejA_asignacion:
  "asignacion (ej_entorno (Fin 10) (Fin 8)) ej_disp False =
     [\<lparr>Material = ''A'', Semana = ''1'', Semana_Num = Fin 1,
     Demanda_semanal = Fin 100, Unidades_por_hora = Fin 10,
     Unidades_por_pallet = Fin 50, Inventario_inicial = Fin 20,
     Valor_inventario_inicial = Fin 60, Costo_variable_unitario = Fin 2,
     Inventario_promedio = Fin 30, Horas_Necesarias = Fin 10,
     Total_Horas_Req_Semana = Fin 10, Turnos_disponibles = Fin 10,
     Horas_Capacidad_Total = Fin 80, Diferencia_Horas = Fin 70,
     Participacion = Fin 1, Horas_Ajuste = Fin 70,
     Horas_Finales_Asignadas = Fin 80, Unidades_A_Producir = Fin 800,
     Unidades_Ajuste = Fin 700, Costo_variable_total = Fin 1600,
     Pallets_Requeridos = Fin 16, Pallets_Extra = Fin 14\<rparr>,
     \<lparr>Material = ''A'', Semana = ''2'', Semana_Num = Fin 2,
     Demanda_semanal = Fin 150, Unidades_por_hora = Fin 10,
     Unidades_por_pallet = Fin 50, Inventario_inicial = Fin 20,
     Valor_inventario_inicial = Fin 60, Costo_variable_unitario = Fin 2,
     Inventario_promedio = Fin 30, Horas_Necesarias = Fin 15,
     Total_Horas_Req_Semana = Fin 15, Turnos_disponibles = Fin 10,
     Horas_Capacidad_Total = Fin 80, Diferencia_Horas = Fin 65,
     Participacion = Fin 1, Horas_Ajuste = Fin 65,
     Horas_Finales_Asignadas = Fin 80, Unidades_A_Producir = Fin 800,
     Unidades_Ajuste = Fin 650, Costo_variable_total = Fin 1600,
     Pallets_Requeridos = Fin 16, Pallets_Extra = Fin 13\<rparr>]"
  by (simp add: asignacion_def ejA_resumen ej_base merge_left_def asignar_def fillna_def
      py_max_def flt_gt_def replace_0_1_def fsub_def inf_signo_def fila_base.defs fila_asig.defs
      Let_def)

lemma ejA_tabla_costos:
  "tabla_costos (Fin 1000) (asignacion (ej_entorno (Fin 10) (Fin 8)) ej_disp False) =
     [(''1'', Fin (5 / 4)), (''2'', Fin (5 / 4))]"
  by (simp add: ejA_asignacion tabla_costos_def claves_def costo_fijo_unitario_de_def flt_gt_def)

lemma ejA_costeo:
  "costeo (Fin 1000) (asignacion (ej_entorno (Fin 10) (Fin 8)) ej_disp False) =
     [\<lparr>Material = ''A'', Semana = ''1'', Semana_Num = Fin 1,
     Demanda_semanal = Fin 100, Unidades_por_hora = Fin 10,
     Unidades_por_pallet = Fin 50, Inventario_inicial = Fin 20,
     Valor_inventario_inicial = Fin 60, Costo_variable_unitario = Fin 2,
     Inventario_promedio = Fin 30, Horas_Necesarias = Fin 10,
     Total_Horas_Req_Semana = Fin 10, Turnos_disponibles = Fin 10,
     Horas_Capacidad_Total = Fin 80, Diferencia_Horas = Fin 70,
     Participacion = Fin 1, Horas_Ajuste = Fin 70,
     Horas_Finales_Asignadas = Fin 80, Unidades_A_Producir = Fin 800,
     Unidades_Ajuste = Fin 700, Costo_variable_total = Fin 1600,
     Pallets_Requeridos = Fin 16, Pallets_Extra = Fin 14,
     Costo_fijo_unitario = Fin (5 / 4),
     Costo_unitario_total = Fin (13 / 4)\<rparr>,
     \<lparr>Material = ''A'', Semana = ''2'', Semana_Num = Fin 2,
     Demanda_semanal = Fin 150, Unidades_por_hora = Fin 10,
     Unidades_por_pallet = Fin 50, Inventario_inicial = Fin 20,
     Valor_inventario_inicial = Fin 60, Costo_variable_unitario = Fin 2,
     Inventario_promedio = Fin 30, Horas_Necesarias = Fin 15,
     Total_Horas_Req_Semana = Fin 15, Turnos_disponibles = Fin 10,
     Horas_Capacidad_Total = Fin 80, Diferencia_Horas = Fin 65,
     Participacion = Fin 1, Horas_Ajuste = Fin 65,
     Horas_Finales_Asignadas = Fin 80, Unidades_A_Producir = Fin 800,
     Unidades_Ajuste = Fin 650, Costo_variable_total = Fin 1600,
     Pallets_Requeridos = Fin 16, Pallets_Extra = Fin 13,
     Costo_fijo_unitario = Fin (5 / 4),
     Costo_unitario_total = Fin (13 / 4)\<rparr>]"
  unfolding costeo_def ejA_tabla_costos
  by (simp add: ejA_asignacion merge_left_def con_costo_def fila_asig.defs fila_costo.defs Let_def)

lemma ejA_pre:
  "pre_rollforward (ej_entorno (Fin 10) (Fin 8)) ej_disp False =
     [\<lparr>Material = ''A'', Semana = ''1'', Semana_Num = Fin 1,
     Demanda_semanal = Fin 100, Unidades_por_hora = Fin 10,
     Unidades_por_pallet = Fin 50, Inventario_inicial = Fin 20,
     Valor_inventario_inicial = Fin 60, Costo_variable_unitario = Fin 2,
     Inventario_promedio = Fin 30, Horas_Necesarias = Fin 10,
     Total_Horas_Req_Semana = Fin 10, Turnos_disponibles = Fin 10,
     Horas_Capacidad_Total = Fin 80, Diferencia_Horas = Fin 70,
     Participacion = Fin 1, Horas_Ajuste = Fin 70,
     Horas_Finales_Asignadas = Fin 80, Unidades_A_Producir = Fin 800,
     Unidades_Ajuste = Fin 700, Costo_variable_total = Fin 1600,
     Pallets_Requeridos = Fin 16, Pallets_Extra = Fin 14,
     Costo_fijo_unitario = Fin (5 / 4),
     Costo_unitario_total = Fin (13 / 4)\<rparr>,
     \<lparr>Material = ''A'', Semana = ''2'', Semana_Num = Fin 2,
     Demanda_semanal = Fin 150, Unidades_por_hora = Fin 10,
     Unidades_por_pallet = Fin 50, Inventario_inicial = Fin 20,
     Valor_inventario_inicial = Fin 60, Costo_variable_unitario = Fin 2,
     Inventario_promedio = Fin 30, Horas_Necesarias = Fin 15,
     Total_Horas_Req_Semana = Fin 15, Turnos_disponibles = Fin 10,
     Horas_Capacidad_Total = Fin 80, Diferencia_Horas = Fin 65,
     Participacion = Fin 1, Horas_Ajuste = Fin 65,
     Horas_Finales_Asignadas = Fin 80, Unidades_A_Producir = Fin 800,
     Unidades_Ajuste = Fin 650, Costo_variable_total = Fin 1600,
     Pallets_Requeridos = Fin 16, Pallets_Extra = Fin 13,
     Costo_fijo_unitario = Fin (5 / 4),
     Costo_unitario_total = Fin (13 / 4)\<rparr>]"
  unfolding pre_rollforward_def ej_params ejA_costeo
  by (simp add: ordenar_def)

lemma ejA_rollforward:
  "rollforward (ej_entorno (Fin 10) (Fin 8)) ej_disp False =
     [\<lparr>Material = ''A'', Semana = ''1'', Semana_Num = Fin 1,
     Demanda_semanal = Fin 100, Unidades_por_hora = Fin 10,
     Unidades_por_pallet = Fin 50, Inventario_inicial = Fin 20,
     Valor_inventario_inicial = Fin 60, Costo_variable_unitario = Fin 2,
     Inventario_promedio = Fin 30, Horas_Necesarias = Fin 10,
     Total_Horas_Req_Semana = Fin 10, Turnos_disponibles = Fin 10,
     Horas_Capacidad_Total = Fin 80, Diferencia_Horas = Fin 70,
     Participacion = Fin 1, Horas_Ajuste = Fin 70,
     Horas_Finales_Asignadas = Fin 80, Unidades_A_Producir = Fin 800,
     Unidades_Ajuste = Fin 700, Costo_variable_total = Fin 1600,
     Pallets_Requeridos = Fin 16, Pallets_Extra = Fin 14,
     Costo_fijo_unitario = Fin (5 / 4), Costo_unitario_total = Fin (13 / 4),
     Inv_Inicial_Und = Fin 20, Inv_Inicial_Valor = Fin 60,
     Costo_Promedio_Ponderado = Fin (133 / 41), Inv_Final_Und = Fin 720,
     Inv_Final_Valor = Fin (95760 / 41),
     Costo_Mercancia_Vendida = Fin (13300 / 41)\<rparr>,
     \<lparr>Material = ''A'', Semana = ''2'', Semana_Num = Fin 2,
     Demanda_semanal = Fin 150, Unidades_por_hora = Fin 10,
     Unidades_por_pallet = Fin 50, Inventario_inicial = Fin 20,
     Valor_inventario_inicial = Fin 60, Costo_variable_unitario = Fin 2,
     Inventario_promedio = Fin 30, Horas_Necesarias = Fin 15,
     Total_Horas_Req_Semana = Fin 15, Turnos_disponibles = Fin 10,
     Horas_Capacidad_Total = Fin 80, Diferencia_Horas = Fin 65,
     Participacion = Fin 1, Horas_Ajuste = Fin 65,
     Horas_Finales_Asignadas = Fin 80, Unidades_A_Producir = Fin 800,
     Unidades_Ajuste = Fin 650, Costo_variable_total = Fin 1600,
     Pallets_Requeridos = Fin 16, Pallets_Extra = Fin 13,
     Costo_fijo_unitario = Fin (5 / 4), Costo_unitario_total = Fin (13 / 4),
     Inv_Inicial_Und = Fin 720, Inv_Inicial_Valor = Fin (95760 / 41),
     Costo_Promedio_Ponderado = Fin (5059 / 1558), Inv_Final_Und = Fin 1370,
     Inv_Final_Valor = Fin (3465415 / 779),
     Costo_Mercancia_Vendida = Fin (379425 / 779)\<rparr>]"
  unfolding rollforward_def ejA_pre
  by (simp add: estado_inicial_def fila_escrita_def estado_siguiente_def qty_ini_def val_ini_def
      val_prod_def total_qty_def total_val_def wac_def qty_sold_def cogs_total_def qty_final_def
      val_final_def py_min_def flt_gt_def fsub_def fila_costo.defs fila_inv.defs)

lemma ejB_resumen:
  "resumen_semanal (ej_entorno (Fin 10) (Fin 8)) [] False =
     [\<lparr>rs_Semana = ''1'', rs_Total_Horas_Req_Semana = Fin 10,
     rs_Turnos_disponibles = Fin 0, rs_Horas_Capacidad_Total = Fin 0,
     rs_Diferencia_Horas = Fin (- 10)\<rparr>,
     \<lparr>rs_Semana = ''2'', rs_Total_Horas_Req_Semana = Fin 15,
     rs_Turnos_disponibles = Fin 0, rs_Horas_Capacidad_Total = Fin 0,
     rs_Diferencia_Horas = Fin (- 15)\<rparr>]"
  by (simp add: resumen_semanal_def ej_base ej_params claves_def total_horas_req_def
      merge_left_def fillna_def fila_resumen_de_def fsub_def inf_signo_def Let_def)

lemma ejB_asignacion:
  "asignacion (ej_entorno (Fin 10) (Fin 8)) [] False =
     [\<lparr>Material = ''A'', Semana = ''1'', Semana_Num = Fin 1,
     Demanda_semanal = Fin 100, Unidades_por_hora = Fin 10,
     Unidades_por_pallet = Fin 50, Inventario_inicial = Fin 20,
     Valor_inventario_inicial = Fin 60, Costo_variable_unitario = Fin 2,
     Inventario_promedio = Fin 30, Horas_Necesarias = Fin 10,
     Total_Horas_Req_Semana = Fin 10, Turnos_disponibles = Fin 0,
     Horas_Capacidad_Total = Fin 0, Diferencia_Horas = Fin (- 10),
     Participacion = Fin 1, Horas_Ajuste = Fin (- 10),
     Horas_Finales_Asignadas = Fin 0, Unidades_A_Producir = Fin 0,
     Unidades_Ajuste = Fin (- 100), Costo_variable_total = Fin 0,
     Pallets_Requeridos = Fin 0, Pallets_Extra = Fin (- 2)\<rparr>,
     \<lparr>Material = ''A'', Semana = ''2'', Semana_Num = Fin 2,
     Demanda_semanal = Fin 150, Unidades_por_hora = Fin 10,
     Unidades_por_pallet = Fin 50, Inventario_inicial = Fin 20,
     Valor_inventario_inicial = Fin 60, Costo_variable_unitario = Fin 2,
     Inventario_promedio = Fin 30, Horas_Necesarias = Fin 15,
     Total_Horas_Req_Semana = Fin 15, Turnos_disponibles = Fin 0,
     Horas_Capacidad_Total = Fin 0, Diferencia_Horas = Fin (- 15),
     Participacion = Fin 1, Horas_Ajuste = Fin (- 15),
     Horas_Finales_Asignadas = Fin 0, Unidades_A_Producir = Fin 0,
     Unidades_Ajuste = Fin (- 150), Costo_variable_total = Fin 0,
     Pallets_Requeridos = Fin 0, Pallets_Extra = Fin (- 3)\<rparr>]"
  by (simp add: asignacion_def ejB_resumen ej_base merge_left_def asignar_def fillna_def
      py_max_def flt_gt_def replace_0_1_def fsub_def inf_signo_def fila_base.defs fila_asig.defs
      Let_def)

lemma ejB_tabla_costos:
  "tabla_costos (Fin 1000) (asignacion (ej_entorno (Fin 10) (Fin 8)) [] False) =
     [(''1'', Fin 0), (''2'', Fin 0)]"
  by (simp add: ejB_asignacion tabla_costos_def claves_def costo_fijo_unitario_de_def flt_gt_def)

lemma ejB_costeo:
  "costeo (Fin 1000) (asignacion (ej_entorno (Fin 10) (Fin 8)) [] False) =
     [\<lparr>Material = ''A'', Semana = ''1'', Semana_Num = Fin 1,
     Demanda_semanal = Fin 100, Unidades_por_hora = Fin 10,
     Unidades_por_pallet = Fin 50, Inventario_inicial = Fin 20,
     Valor_inventario_inicial = Fin 60, Costo_variable_unitario = Fin 2,
     Inventario_promedio = Fin 30, Horas_Necesarias = Fin 10,
     Total_Horas_Req_Semana = Fin 10, Turnos_disponibles = Fin 0,
     Horas_Capacidad_Total = Fin 0, Diferencia_Horas = Fin (- 10),
     Participacion = Fin 1, Horas_Ajuste = Fin (- 10),
     Horas_Finales_Asignadas = Fin 0, Unidades_A_Producir = Fin 0,
     Unidades_Ajuste = Fin (- 100), Costo_variable_total = Fin 0,
     Pallets_Requeridos = Fin 0, Pallets_Extra = Fin (- 2),
     Costo_fijo_unitario = Fin 0, Costo_unitario_total = Fin 2\<rparr>,
     \<lparr>Material = ''A'', Semana = ''2'', Semana_Num = Fin 2,
     Demanda_semanal = Fin 150, Unidades_por_hora = Fin 10,
     Unidades_por_pallet = Fin 50, Inventario_inicial = Fin 20,
     Valor_inventario_inicial = Fin 60, Costo_variable_unitario = Fin 2,
     Inventario_promedio = Fin 30, Horas_Necesarias = Fin 15,
     Total_Horas_Req_Semana = Fin 15, Turnos_disponibles = Fin 0,
     Horas_Capacidad_Total = Fin 0, Diferencia_Horas = Fin (- 15),
     Participacion = Fin 1, Horas_Ajuste = Fin (- 15),
     Horas_Finales_Asignadas = Fin 0, Unidades_A_Producir = Fin 0,
     Unidades_Ajuste = Fin (- 150), Costo_variable_total = Fin 0,
     Pallets_Requeridos = Fin 0, Pallets_Extra = Fin (- 3),
     Costo_fijo_unitario = Fin 0, Costo_unitario_total = Fin 2\<rparr>]"
  unfolding costeo_def ejB_tabla_costos
  by (simp add: ejB_asignacion merge_left_def con_costo_def fila_asig.defs fila_costo.defs Let_def)

lemma ejB_pre:
  "pre_rollforward (ej_entorno (Fin 10) (Fin 8)) [] False =
     [\<lparr>Material = ''A'', Semana = ''1'', Semana_Num = Fin 1,
     Demanda_semanal = Fin 100, Unidades_por_hora = Fin 10,
     Unidades_por_pallet = Fin 50, Inventario_inicial = Fin 20,
     Valor_inventario_inicial = Fin 60, Costo_variable_unitario = Fin 2,
     Inventario_promedio = Fin 30, Horas_Necesarias = Fin 10,
     Total_Horas_Req_Semana = Fin 10, Turnos_disponibles = Fin 0,
     Horas_Capacidad_Total = Fin 0, Diferencia_Horas = Fin (- 10),
     Participacion = Fin 1, Horas_Ajuste = Fin (- 10),
     Horas_Finales_Asignadas = Fin 0, Unidades_A_Producir = Fin 0,
     Unidades_Ajuste = Fin (- 100), Costo_variable_total = Fin 0,
     Pallets_Requeridos = Fin 0, Pallets_Extra = Fin (- 2),
     Costo_fijo_unitario = Fin 0, Costo_unitario_total = Fin 2\<rparr>,
     \<lparr>Material = ''A'', Semana = ''2'', Semana_Num = Fin 2,
     Demanda_semanal = Fin 150, Unidades_por_hora = Fin 10,
     Unidades_por_pallet = Fin 50, Inventario_inicial = Fin 20,
     Valor_inventario_inicial = Fin 60, Costo_variable_unitario = Fin 2,
     Inventario_promedio = Fin 30, Horas_Necesarias = Fin 15,
     Total_Horas_Req_Semana = Fin 15, Turnos_disponibles = Fin 0,
     Horas_Capacidad_Total = Fin 0, Diferencia_Horas = Fin (- 15),
     Participacion = Fin 1, Horas_Ajuste = Fin (- 15),
     Horas_Finales_Asignadas = Fin 0, Unidades_A_Producir = Fin 0,
     Unidades_Ajuste = Fin (- 150), Costo_variable_total = Fin 0,
     Pallets_Requeridos = Fin 0, Pallets_Extra = Fin (- 3),
     Costo_fijo_unitario = Fin 0, Costo_unitario_total = Fin 2\<rparr>]"
  unfolding pre_rollforward_def ej_params ejB_costeo
  by (simp add: ordenar_def)

lemma ejB_rollforward:
  "rollforward (ej_entorno (Fin 10) (Fin 8)) [] False =
     [\<lparr>Material = ''A'', Semana = ''1'', Semana_Num = Fin 1,
     Demanda_semanal = Fin 100, Unidades_por_hora = Fin 10,
     Unidades_por_pallet = Fin 50, Inventario_inicial = Fin 20,
     Valor_inventario_inicial = Fin 60, Costo_variable_unitario = Fin 2,
     Inventario_promedio = Fin 30, Horas_Necesarias = Fin 10,
     Total_Horas_Req_Semana = Fin 10, Turnos_disponibles = Fin 0,
     Horas_Capacidad_Total = Fin 0, Diferencia_Horas = Fin (- 10),
     Participacion = Fin 1, Horas_Ajuste = Fin (- 10),
     Horas_Finales_Asignadas = Fin 0, Unidades_A_Producir = Fin 0,
     Unidades_Ajuste = Fin (- 100), Costo_variable_total = Fin 0,
     Pallets_Requeridos = Fin 0, Pallets_Extra = Fin (- 2),
     Costo_fijo_unitario = Fin 0, Costo_unitario_total = Fin 2,
     Inv_Inicial_Und = Fin 20, Inv_Inicial_Valor = Fin 60,
     Costo_Promedio_Ponderado = Fin 3, Inv_Final_Und = Fin 0,
     Inv_Final_Valor = Fin 0, Costo_Mercancia_Vendida = Fin 60\<rparr>,
     \<lparr>Material = ''A'', Semana = ''2'', Semana_Num = Fin 2,
     Demanda_semanal = Fin 150, Unidades_por_hora = Fin 10,
     Unidades_por_pallet = Fin 50, Inventario_inicial = Fin 20,
     Valor_inventario_inicial = Fin 60, Costo_variable_unitario = Fin 2,
     Inventario_promedio = Fin 30, Horas_Necesarias = Fin 15,
     Total_Horas_Req_Semana = Fin 15, Turnos_disponibles = Fin 0,
     Horas_Capacidad_Total = Fin 0, Diferencia_Horas = Fin (- 15),
     Participacion = Fin 1, Horas_Ajuste = Fin (- 15),
     Horas_Finales_Asignadas = Fin 0, Unidades_A_Producir = Fin 0,
     Unidades_Ajuste = Fin (- 150), Costo_variable_total = Fin 0,
     Pallets_Requeridos = Fin 0, Pallets_Extra = Fin (- 3),
     Costo_fijo_unitario = Fin 0, Costo_unitario_total = Fin 2,
     Inv_Inicial_Und = Fin 0, Inv_Inicial_Valor = Fin 0,
     Costo_Promedio_Ponderado = Fin 2, Inv_Final_Und = Fin 0,
     Inv_Final_Valor = Fin 0, Costo_Mercancia_Vendida = Fin 0\<rparr>]"
  unfolding rollforward_def ejB_pre
  by (simp add: estado_inicial_def fila_escrita_def estado_siguiente_def qty_ini_def val_ini_def
      val_prod_def total_qty_def total_val_def wac_def qty_sold_def cogs_total_def qty_final_def
      val_final_def py_min_def flt_gt_def fsub_def fila_costo.defs fila_inv.defs)

lemma ejC_resumen:
  "resumen_semanal (ej_entorno (Fin 0) (Fin 8)) ej_disp False =
     [\<lparr>rs_Semana = ''1'', rs_Total_Horas_Req_Semana = PInf,
     rs_Turnos_disponibles = Fin 10, rs_Horas_Capacidad_Total = Fin 80,
     rs_Diferencia_Horas = NInf\<rparr>,
     \<lparr>rs_Semana = ''2'', rs_Total_Horas_Req_Semana = PInf,
     rs_Turnos_disponibles = Fin 10, rs_Horas_Capacidad_Total = Fin 80,
     rs_Diferencia_Horas = NInf\<rparr>]"
  by (simp add: resumen_semanal_def ej_base ej_params ej_disp_def claves_def total_horas_req_def
      merge_left_def fillna_def fila_resumen_de_def fsub_def inf_signo_def Let_def)

lemma ejC_asignacion:
  "asignacion (ej_entorno (Fin 0) (Fin 8)) ej_disp False =
     [\<lparr>Material = ''A'', Semana = ''1'', Semana_Num = Fin 1,
     Demanda_semanal = Fin 100, Unidades_por_hora = Fin 0,
     Unidades_por_pallet = Fin 50, Inventario_inicial = Fin 20,
     Valor_inventario_inicial = Fin 60, Costo_variable_unitario = Fin 2,
     Inventario_promedio = Fin 30, Horas_Necesarias = PInf,
     Total_Horas_Req_Semana = PInf, Turnos_disponibles = Fin 10,
     Horas_Capacidad_Total = Fin 80, Diferencia_Horas = NInf,
     Participacion = Fin 0, Horas_Ajuste = NaN,
     Horas_Finales_Asignadas = NaN, Unidades_A_Producir = NaN,
     Unidades_Ajuste = NaN, Costo_variable_total = NaN,
     Pallets_Requeridos = NaN, Pallets_Extra = NaN\<rparr>,
     \<lparr>Material = ''A'', Semana = ''2'', Semana_Num = Fin 2,
     Demanda_semanal = Fin 150, Unidades_por_hora = Fin 0,
     Unidades_por_pallet = Fin 50, Inventario_inicial = Fin 20,
     Valor_inventario_inicial = Fin 60, Costo_variable_unitario = Fin 2,
     Inventario_promedio = Fin 30, Horas_Necesarias = PInf,
     Total_Horas_Req_Semana = PInf, Turnos_disponibles = Fin 10,
     Horas_Capacidad_Total = Fin 80, Diferencia_Horas = NInf,
     Participacion = Fin 0, Horas_Ajuste = NaN,
     Horas_Finales_Asignadas = NaN, Unidades_A_Producir = NaN,
     Unidades_Ajuste = NaN, Costo_variable_total = NaN,
     Pallets_Requeridos = NaN, Pallets_Extra = NaN\<rparr>]"
  by (simp add: asignacion_def ejC_resumen ej_base merge_left_def asignar_def fillna_def
      py_max_def flt_gt_def replace_0_1_def fsub_def inf_signo_def fila_base.defs fila_asig.defs
      Let_def)

lemma ejC_tabla_costos:
  "tabla_costos (Fin 1000) (asignacion (ej_entorno (Fin 0) (Fin 8)) ej_disp False) =
     [(''1'', Fin 0), (''2'', Fin 0)]"
  by (simp add: ejC_asignacion tabla_costos_def claves_def costo_fijo_unitario_de_def flt_gt_def)

lemma ejC_costeo:
  "costeo (Fin 1000) (asignacion (ej_entorno (Fin 0) (Fin 8)) ej_disp False) =
     [\<lparr>Material = ''A'', Semana = ''1'', Semana_Num = Fin 1,
     Demanda_semanal = Fin 100, Unidades_por_hora = Fin 0,
     Unidades_por_pallet = Fin 50, Inventario_inicial = Fin 20,
     Valor_inventario_inicial = Fin 60, Costo_variable_unitario = Fin 2,
     Inventario_promedio = Fin 30, Horas_Necesarias = PInf,
     Total_Horas_Req_Semana = PInf, Turnos_disponibles = Fin 10,
     Horas_Capacidad_Total = Fin 80, Diferencia_Horas = NInf,
     Participacion = Fin 0, Horas_Ajuste = NaN,
     Horas_Finales_Asignadas = NaN, Unidades_A_Producir = NaN,
     Unidades_Ajuste = NaN, Costo_variable_total = NaN,
     Pallets_Requeridos = NaN, Pallets_Extra = NaN,
     Costo_fijo_unitario = Fin 0, Costo_unitario_total = Fin 2\<rparr>,
     \<lparr>Material = ''A'', Semana = ''2'', Semana_Num = Fin 2,
     Demanda_semanal = Fin 150, Unidades_por_hora = Fin 0,
     Unidades_por_pallet = Fin 50, Inventario_inicial = Fin 20,
     Valor_inventario_inicial = Fin 60, Costo_variable_unitario = Fin 2,
     Inventario_promedio = Fin 30, Horas_Necesarias = PInf,
     Total_Horas_Req_Semana = PInf, Turnos_disponibles = Fin 10,
     Horas_Capacidad_Total = Fin 80, Diferencia_Horas = NInf,
     Participacion = Fin 0, Horas_Ajuste = NaN,
     Horas_Finales_Asignadas = NaN, Unidades_A_Producir = NaN,
     Unidades_Ajuste = NaN, Costo_variable_total = NaN,
     Pallets_Requeridos = NaN, Pallets_Extra = NaN,
     Costo_fijo_unitario = Fin 0, Costo_unitario_total = Fin 2\<rparr>]"
  unfolding costeo_def ejC_tabla_costos
  by (simp add: ejC_asignacion merge_left_def con_costo_def fila_asig.defs fila_costo.defs Let_def)

lemma ejC_pre:
  "pre_rollforward (ej_entorno (Fin 0) (Fin 8)) ej_disp False =
     [\<lparr>Material = ''A'', Semana = ''1'', Semana_Num = Fin 1,
     Demanda_semanal = Fin 100, Unidades_por_hora = Fin 0,
     Unidades_por_pallet = Fin 50, Inventario_inicial = Fin 20,
     Valor_inventario_inicial = Fin 60, Costo_variable_unitario = Fin 2,
     Inventario_promedio = Fin 30, Horas_Necesarias = PInf,
     Total_Horas_Req_Semana = PInf, Turnos_disponibles = Fin 10,
     Horas_Capacidad_Total = Fin 80, Diferencia_Horas = NInf,
     Participacion = Fin 0, Horas_Ajuste = NaN,
     Horas_Finales_Asignadas = NaN, Unidades_A_Producir = NaN,
     Unidades_Ajuste = NaN, Costo_variable_total = NaN,
     Pallets_Requeridos = NaN, Pallets_Extra = NaN,
     Costo_fijo_unitario = Fin 0, Costo_unitario_total = Fin 2\<rparr>,
     \<lparr>Material = ''A'', Semana = ''2'', Semana_Num = Fin 2,
     Demanda_semanal = Fin 150, Unidades_por_hora = Fin 0,
     Unidades_por_pallet = Fin 50, Inventario_inicial = Fin 20,
     Valor_inventario_inicial = Fin 60, Costo_variable_unitario = Fin 2,
     Inventario_promedio = Fin 30, Horas_Necesarias = PInf,
     Total_Horas_Req_Semana = PInf, Turnos_disponibles = Fin 10,
     Horas_Capacidad_Total = Fin 80, Diferencia_Horas = NInf,
     Participacion = Fin 0, Horas_Ajuste = NaN,
     Horas_Finales_Asignadas = NaN, Unidades_A_Producir = NaN,
     Unidades_Ajuste = NaN, Costo_variable_total = NaN,
     Pallets_Requeridos = NaN, Pallets_Extra = NaN,
     Costo_fijo_unitario = Fin 0, Costo_unitario_total = Fin 2\<rparr>]"
  unfolding pre_rollforward_def ej_params ejC_costeo
  by (simp add: ordenar_def)

lemma ejC_rollforward:
  "rollforward (ej_entorno (Fin 0) (Fin 8)) ej_disp False =
     [\<lparr>Material = ''A'', Semana = ''1'', Semana_Num = Fin 1,
     Demanda_semanal = Fin 100, Unidades_por_hora = Fin 0,
     Unidades_por_pallet = Fin 50, Inventario_inicial = Fin 20,
     Valor_inventario_inicial = Fin 60, Costo_variable_unitario = Fin 2,
     Inventario_promedio = Fin 30, Horas_Necesarias = PInf,
     Total_Horas_Req_Semana = PInf, Turnos_disponibles = Fin 10,
     Horas_Capacidad_Total = Fin 80, Diferencia_Horas = NInf,
     Participacion = Fin 0, Horas_Ajuste = NaN,
     Horas_Finales_Asignadas = NaN, Unidades_A_Producir = NaN,
     Unidades_Ajuste = NaN, Costo_variable_total = NaN,
     Pallets_Requeridos = NaN, Pallets_Extra = NaN,
     Costo_fijo_unitario = Fin 0, Costo_unitario_total = Fin 2,
     Inv_Inicial_Und = Fin 20, Inv_Inicial_Valor = Fin 60,
     Costo_Promedio_Ponderado = Fin 2, Inv_Final_Und = NaN,
     Inv_Final_Valor = NaN, Costo_Mercancia_Vendida = Fin 200\<rparr>,
     \<lparr>Material = ''A'', Semana = ''2'', Semana_Num = Fin 2,
     Demanda_semanal = Fin 150, Unidades_por_hora = Fin 0,
     Unidades_por_pallet = Fin 50, Inventario_inicial = Fin 20,
     Valor_inventario_inicial = Fin 60, Costo_variable_unitario = Fin 2,
     Inventario_promedio = Fin 30, Horas_Necesarias = PInf,
     Total_Horas_Req_Semana = PInf, Turnos_disponibles = Fin 10,
     Horas_Capacidad_Total = Fin 80, Diferencia_Horas = NInf,
     Participacion = Fin 0, Horas_Ajuste = NaN,
     Horas_Finales_Asignadas = NaN, Unidades_A_Producir = NaN,
     Unidades_Ajuste = NaN, Costo_variable_total = NaN,
     Pallets_Requeridos = NaN, Pallets_Extra = NaN,
     Costo_fijo_unitario = Fin 0, Costo_unitario_total = Fin 2,
     Inv_Inicial_Und = NaN, Inv_Inicial_Valor = NaN,
     Costo_Promedio_Ponderado = Fin 2, Inv_Final_Und = NaN,
     Inv_Final_Valor = NaN, Costo_Mercancia_Vendida = Fin 300\<rparr>]"
  unfolding rollforward_def ejC_pre
  by (simp add: estado_inicial_def fila_escrita_def estado_siguiente_def qty_ini_def val_ini_def
      val_prod_def total_qty_def total_val_def wac_def qty_sold_def cogs_total_def qty_final_def
      val_final_def py_min_def flt_gt_def fsub_def fila_costo.defs fila_inv.defs)

text \<open>
  The constrained scenario on the sheet whose material has no capacity row (\<open>ejE\<close>).
\<close>

lemma strip_ejB: "strip ''B'' = ''B''"
  by (simp add: strip_def es_espacio_def)

lemma ejE_base:
  "df_base_materiales (ej_entorno_sin_cap) =
     [\<lparr>Material = ''B'', Semana = ''1'', Semana_Num = Fin 1,
     Demanda_semanal = Fin 100, Unidades_por_hora = NaN,
     Unidades_por_pallet = NaN, Inventario_inicial = NaN,
     Valor_inventario_inicial = NaN, Costo_variable_unitario = NaN,
     Inventario_promedio = NaN, Horas_Necesarias = NaN\<rparr>]"
  by (simp add: ej_entorno_sin_cap_def entorno_de_def construir_base_def merge_left_def ej_prod_sin_cap_def
      ej_cap_def ej_cols_def completar_cap_def fila_unida_def strip_ej strip_ejB num_ej Let_def)

lemma ejE_params:
  "horas_por_turno (ej_entorno_sin_cap) = Fin 8"
  "costo_fijo_param (ej_entorno_sin_cap) = Fin 1000"
  by (simp_all add: ej_entorno_sin_cap_def entorno_de_def Let_def)

lemma ejE_resumen:
  "resumen_semanal (ej_entorno_sin_cap) ej_disp False =
     [\<lparr>rs_Semana = ''1'', rs_Total_Horas_Req_Semana = Fin 0,
     rs_Turnos_disponibles = Fin 10, rs_Horas_Capacidad_Total = Fin 80,
     rs_Diferencia_Horas = Fin 80\<rparr>]"
  by (simp add: resumen_semanal_def ejE_base ejE_params ej_disp_def claves_def total_horas_req_def
      merge_left_def fillna_def fila_resumen_de_def fsub_def inf_signo_def Let_def)

lemma ejE_asignacion:
  "asignacion (ej_entorno_sin_cap) ej_disp False =
     [\<lparr>Material = ''B'', Semana = ''1'', Semana_Num = Fin 1,
     Demanda_semanal = Fin 100, Unidades_por_hora = NaN,
     Unidades_por_pallet = NaN, Inventario_inicial = NaN,
     Valor_inventario_inicial = NaN, Costo_variable_unitario = NaN,
     Inventario_promedio = NaN, Horas_Necesarias = NaN,
     Total_Horas_Req_Semana = Fin 0, Turnos_disponibles = Fin 10,
     Horas_Capacidad_Total = Fin 80, Diferencia_Horas = Fin 80,
     Participacion = Fin 0, Horas_Ajuste = Fin 0,
     Horas_Finales_Asignadas = NaN, Unidades_A_Producir = NaN,
     Unidades_Ajuste = NaN, Costo_variable_total = NaN,
     Pallets_Requeridos = NaN, Pallets_Extra = NaN\<rparr>]"
  by (simp add: asignacion_def ejE_resumen ejE_base merge_left_def asignar_def fillna_def
      py_max_def flt_gt_def replace_0_1_def fsub_def inf_signo_def fila_base.defs fila_asig.defs
      Let_def)

lemma ejE_tabla_costos:
  "tabla_costos (Fin 1000) (asignacion (ej_entorno_sin_cap) ej_disp False) =
     [(''1'', Fin 0)]"
  by (simp add: ejE_asignacion tabla_costos_def claves_def costo_fijo_unitario_de_def flt_gt_def)

lemma ejE_costeo:
  "costeo (Fin 1000) (asignacion (ej_entorno_sin_cap) ej_disp False) =
     [\<lparr>Material = ''B'', Semana = ''1'', Semana_Num = Fin 1,
     Demanda_semanal = Fin 100, Unidades_por_hora = NaN,
     Unidades_por_pallet = NaN, Inventario_inicial = NaN,
     Valor_inventario_inicial = NaN, Costo_variable_unitario = NaN,
     Inventario_promedio = NaN, Horas_Necesarias = NaN,
     Total_Horas_Req_Semana = Fin 0, Turnos_disponibles = Fin 10,
     Horas_Capacidad_Total = Fin 80, Diferencia_Horas = Fin 80,
     Participacion = Fin 0, Horas_Ajuste = Fin 0,
     Horas_Finales_Asignadas = NaN, Unidades_A_Producir = NaN,
     Unidades_Ajuste = NaN, Costo_variable_total = NaN,
     Pallets_Requeridos = NaN, Pallets_Extra = NaN,
     Costo_fijo_unitario = Fin 0, Costo_unitario_total = NaN\<rparr>]"
  unfolding costeo_def ejE_tabla_costos
  by (simp add: ejE_asignacion merge_left_def con_costo_def fila_asig.defs fila_costo.defs Let_def)

lemma ejE_pre:
  "pre_rollforward (ej_entorno_sin_cap) ej_disp False =
     [\<lparr>Material = ''B'', Semana = ''1'', Semana_Num = Fin 1,
     Demanda_semanal = Fin 100, Unidades_por_hora = NaN,
     Unidades_por_pallet = NaN, Inventario_inicial = NaN,
     Valor_inventario_inicial = NaN, Costo_variable_unitario = NaN,
     Inventario_promedio = NaN, Horas_Necesarias = NaN,
     Total_Horas_Req_Semana = Fin 0, Turnos_disponibles = Fin 10,
     Horas_Capacidad_Total = Fin 80, Diferencia_Horas = Fin 80,
     Participacion = Fin 0, Horas_Ajuste = Fin 0,
     Horas_Finales_Asignadas = NaN, Unidades_A_Producir = NaN,
     Unidades_Ajuste = NaN, Costo_variable_total = NaN,
     Pallets_Requeridos = NaN, Pallets_Extra = NaN,
     Costo_fijo_unitario = Fin 0, Costo_unitario_total = NaN\<rparr>]"
  unfolding pre_rollforward_def ejE_params ejE_costeo
  by (simp add: ordenar_def)

lemma ejE_rollforward:
  "rollforward (ej_entorno_sin_cap) ej_disp False =
     [\<lparr>Material = ''B'', Semana = ''1'', Semana_Num = Fin 1,
     Demanda_semanal = Fin 100, Unidades_por_hora = NaN,
     Unidades_por_pallet = NaN, Inventario_inicial = NaN,
     Valor_inventario_inicial = NaN, Costo_variable_unitario = NaN,
     Inventario_promedio = NaN, Horas_Necesarias = NaN,
     Total_Horas_Req_Semana = Fin 0, Turnos_disponibles = Fin 10,
     Horas_Capacidad_Total = Fin 80, Diferencia_Horas = Fin 80,
     Participacion = Fin 0, Horas_Ajuste = Fin 0,
     Horas_Finales_Asignadas = NaN, Unidades_A_Producir = NaN,
     Unidades_Ajuste = NaN, Costo_variable_total = NaN,
     Pallets_Requeridos = NaN, Pallets_Extra = NaN,
     Costo_fijo_unitario = Fin 0, Costo_unitario_total = NaN,
     Inv_Inicial_Und = NaN, Inv_Inicial_Valor = NaN,
     Costo_Promedio_Ponderado = NaN, Inv_Final_Und = NaN,
     Inv_Final_Valor = NaN, Costo_Mercancia_Vendida = NaN\<rparr>]"
  unfolding rollforward_def ejE_pre
  by (simp add: estado_inicial_def fila_escrita_def estado_siguiente_def qty_ini_def val_ini_def
      val_prod_def total_qty_def total_val_def wac_def qty_sold_def cogs_total_def qty_final_def
      val_final_def py_min_def flt_gt_def fsub_def fila_costo.defs fila_inv.defs)








section \<open>Demand-driven mode\<close>






section \<open>The loop, row by row\<close>

lemma escrita_sel:
  "Inv_Inicial_Und (fila_escrita st row) = qty_ini st row"
  "Inv_Inicial_Valor (fila_escrita st row) = val_ini st row"
  "Costo_Promedio_Ponderado (fila_escrita st row) = wac st row"
  "Inv_Final_Und (fila_escrita st row) = qty_final st row"
  "Inv_Final_Valor (fila_escrita st row) = val_final st row"
  "Costo_Mercancia_Vendida (fila_escrita st row) = cogs_total st row"
  "Material (fila_escrita st row) = Material row"
  "Semana (fila_escrita st row) = Semana row"
  "Semana_Num (fila_escrita st row) = Semana_Num row"
  "Demanda_semanal (fila_escrita st row) = Demanda_semanal row"
  "Inventario_inicial (fila_escrita st row) = Inventario_inicial row"
  "Valor_inventario_inicial (fila_escrita st row) = Valor_inventario_inicial row"
  "Unidades_A_Producir (fila_escrita st row) = Unidades_A_Producir row"
  "Costo_unitario_total (fila_escrita st row) = Costo_unitario_total row"
  by (simp_all add: fila_escrita_def fila_costo.defs fila_inv.defs)

lemma bucle_nth:
  "i < length filas \<Longrightarrow> bucle st filas ! i = fila_escrita (estado_en st filas i) (filas ! i)"
proof (induction filas arbitrary: st i)
  case Nil then show ?case by simp
next
  case (Cons r rs) then show ?case by (cases i) simp_all
qed

lemma bucle_length: "length (bucle st filas) = length filas"
  by (induction filas arbitrary: st) simp_all

lemma estado_en_0: "estado_en st filas 0 = st"
  by (cases filas) simp_all

lemma estado_en_Suc:
  "i < length filas \<Longrightarrow>
     estado_en st filas (Suc i) = estado_siguiente (estado_en st filas i) (filas ! i)"
proof (induction filas arbitrary: st i)
  case Nil
  then show ?case by simp
next
  case (Cons r rs)
  show ?case
  proof (cases i)
    case 0
    then show ?thesis by (simp add: estado_en_0)
  next
    case (Suc j)
    with Cons show ?thesis by simp
  qed
qed

lemma apertura_primera:
  "qty_ini estado_inicial row = Inventario_inicial row"
  "val_ini estado_inicial row = Valor_inventario_inicial row"
  by (simp_all add: qty_ini_def val_ini_def estado_inicial_def)

lemma apertura_siguiente:
  "qty_ini (estado_siguiente st r) r'
     = (if Material r' = Material r then qty_final st r else Inventario_inicial r')"
  "val_ini (estado_siguiente st r) r'
     = (if Material r' = Material r then val_final st r else Valor_inventario_inicial r')"
  by (auto simp add: qty_ini_def val_ini_def estado_siguiente_def)

lemma rollforward_length:
  "length (rollforward E d m) = length (pre_rollforward E d m)"
  by (simp add: rollforward_def bucle_length)

text \<open>Two rows that the loop writes one after the other.\<close>

lemma filas_consecutivas:
  assumes "Suc i < length (rollforward E d m)"
  shows "Inv_Inicial_Und (rollforward E d m ! Suc i)
           = (if Material (rollforward E d m ! Suc i) = Material (rollforward E d m ! i)
              then Inv_Final_Und (rollforward E d m ! i)
              else Inventario_inicial (rollforward E d m ! Suc i))"
    and "Inv_Inicial_Valor (rollforward E d m ! Suc i)
           = (if Material (rollforward E d m ! Suc i) = Material (rollforward E d m ! i)
              then Inv_Final_Valor (rollforward E d m ! i)
              else Valor_inventario_inicial (rollforward E d m ! Suc i))"
proof -
  let ?filas = "pre_rollforward E d m"
  from assms have l: "Suc i < length ?filas" "i < length ?filas"
    by (simp_all add: rollforward_length)
  have a: "rollforward E d m ! i = fila_escrita (estado_en estado_inicial ?filas i) (?filas ! i)"
    using l(2) by (simp add: rollforward_def bucle_nth)
  have b: "rollforward E d m ! Suc i
             = fila_escrita (estado_siguiente (estado_en estado_inicial ?filas i) (?filas ! i))
                 (?filas ! Suc i)"
    using l by (simp add: rollforward_def bucle_nth estado_en_Suc)
  show "Inv_Inicial_Und (rollforward E d m ! Suc i)
           = (if Material (rollforward E d m ! Suc i) = Material (rollforward E d m ! i)
              then Inv_Final_Und (rollforward E d m ! i)
              else Inventario_inicial (rollforward E d m ! Suc i))"
    unfolding a b by (simp add: escrita_sel apertura_siguiente)
  show "Inv_Inicial_Valor (rollforward E d m ! Suc i)
           = (if Material (rollforward E d m ! Suc i) = Material (rollforward E d m ! i)
              then Inv_Final_Valor (rollforward E d m ! i)
              else Valor_inventario_inicial (rollforward E d m ! Suc i))"
    unfolding a b by (simp add: escrita_sel apertura_siguiente)
qed


section \<open>The sale of a row (C5)\<close>

lemma py_min_casos: "py_min d t = (if flt_lt t d then t else d)"
  by (simp add: py_min_def)

lemma tope_venta:
  "\<not> es_nan t \<Longrightarrow> \<not> es_nan d \<Longrightarrow> flt_le (if flt_lt t d then t else d) t"
  by (cases t; cases d) auto

lemma resto_no_negativo:
  "es_finito t \<Longrightarrow> es_finito d \<Longrightarrow> flt_le (Fin 0) (fsub t (if flt_lt t d then t else d))"
  by (cases t; cases d) (auto simp add: fsub_def)

text \<open>
  Claim C5, as the code has it.  On every row the quantity sold is Python's \<open>min\<close> of the
  row's own demand and the supply on hand (opening plus produced quantity): the supply
  when the supply compares lower than the demand, and the demand otherwise, also when
  the supply is not a number.  When neither is missing, the sale is at most the supply.
  The closing quantity is the supply minus the sale, not negative when supply and demand
  are finite numbers, and the cost of goods sold is the sale at the weighted-average
  cost.  The closing quantity is all that the loop carries: the next row opens with it
  when it is of the same material, and with its own static opening inventory otherwise,
  as the first row does; so no unmet demand reaches a later week, whose sale is again
  the \<open>min\<close> of its own demand and its own supply.
\<close>

theorem C5_venta_con_tope:
  assumes "i < length (rollforward E df_disp_scenario modo_demanda)"
  shows "(let out = rollforward E df_disp_scenario modo_demanda ! i;
              disponible = fadd (Inv_Inicial_Und out) (Unidades_A_Producir out);
              vendido = (if flt_lt disponible (Demanda_semanal out) then disponible
                         else Demanda_semanal out)
          in qty_sold (estado_en estado_inicial (pre_rollforward E df_disp_scenario modo_demanda) i)
               (pre_rollforward E df_disp_scenario modo_demanda ! i) = vendido
           \<and> (\<not> es_nan disponible \<and> \<not> es_nan (Demanda_semanal out) \<longrightarrow> flt_le vendido disponible)
           \<and> Inv_Final_Und out = fsub disponible vendido
           \<and> Costo_Mercancia_Vendida out = fmul vendido (Costo_Promedio_Ponderado out)
           \<and> (es_finito disponible \<and> es_finito (Demanda_semanal out)
                \<longrightarrow> flt_le (Fin 0) (Inv_Final_Und out))
           \<and> (i = 0 \<longrightarrow> Inv_Inicial_Und out = Inventario_inicial out)
           \<and> (Suc i < length (rollforward E df_disp_scenario modo_demanda) \<longrightarrow>
                Inv_Inicial_Und (rollforward E df_disp_scenario modo_demanda ! Suc i)
                  = (if Material (rollforward E df_disp_scenario modo_demanda ! Suc i) = Material out
                     then Inv_Final_Und out
                     else Inventario_inicial (rollforward E df_disp_scenario modo_demanda ! Suc i))))"
proof -
  let ?filas = "pre_rollforward E df_disp_scenario modo_demanda"
  let ?st = "estado_en estado_inicial ?filas i"
  let ?row = "?filas ! i"
  let ?v = "if flt_lt (total_qty ?st ?row) (Demanda_semanal ?row) then total_qty ?st ?row
            else Demanda_semanal ?row"
  from assms have l: "i < length ?filas" by (simp add: rollforward_length)
  have out: "rollforward E df_disp_scenario modo_demanda ! i = fila_escrita ?st ?row"
    using l by (simp add: rollforward_def bucle_nth)
  have d: "fadd (qty_ini ?st ?row) (Unidades_A_Producir ?row) = total_qty ?st ?row"
    by (simp add: total_qty_def)
  have a: "qty_sold ?st ?row = ?v"
    by (simp add: qty_sold_def py_min_casos)
  have b: "\<not> es_nan (total_qty ?st ?row) \<and> \<not> es_nan (Demanda_semanal ?row)
             \<longrightarrow> flt_le ?v (total_qty ?st ?row)"
    using tope_venta by blast
  have c: "qty_final ?st ?row = fsub (total_qty ?st ?row) ?v"
    unfolding a[symmetric] by (simp add: qty_final_def)
  have e: "cogs_total ?st ?row = fmul ?v (wac ?st ?row)"
    unfolding a[symmetric] by (simp add: cogs_total_def)
  have f: "es_finito (total_qty ?st ?row) \<and> es_finito (Demanda_semanal ?row)
             \<longrightarrow> flt_le (Fin 0) (qty_final ?st ?row)"
    unfolding c using resto_no_negativo by blast
  have g: "i = 0 \<longrightarrow> qty_ini ?st ?row = Inventario_inicial ?row"
    by (auto simp add: estado_en_0 apertura_primera)
  have h: "Suc i < length (rollforward E df_disp_scenario modo_demanda) \<longrightarrow>
             Inv_Inicial_Und (rollforward E df_disp_scenario modo_demanda ! Suc i)
               = (if Material (rollforward E df_disp_scenario modo_demanda ! Suc i) = Material ?row
                  then qty_final ?st ?row
                  else Inventario_inicial (rollforward E df_disp_scenario modo_demanda ! Suc i))"
    using filas_consecutivas(1)[of i E df_disp_scenario modo_demanda]
    unfolding out by (simp add: escrita_sel)
  show ?thesis
    unfolding Let_def out escrita_sel d using a b c e f g h by blast
qed

theorem C5_venta_con_tope_witness:
  "0 < length (rollforward (ej_entorno (Fin 10) (Fin 8)) ej_disp False)
   \<and> Suc 0 < length (rollforward (ej_entorno (Fin 10) (Fin 8)) ej_disp False)
   \<and> qty_sold estado_inicial (pre_rollforward (ej_entorno (Fin 10) (Fin 8)) ej_disp False ! 0)
       = Fin 100
   \<and> flt_le (Fin 100) (Fin 820)
   \<and> Inv_Final_Und (rollforward (ej_entorno (Fin 10) (Fin 8)) ej_disp False ! 0) = Fin 720
   \<and> Inv_Inicial_Und (rollforward (ej_entorno (Fin 10) (Fin 8)) ej_disp False ! Suc 0) = Fin 720
   \<and> Suc 0 < length (rollforward (ej_entorno (Fin 10) (Fin 8)) [] False)
   \<and> qty_sold estado_inicial (pre_rollforward (ej_entorno (Fin 10) (Fin 8)) [] False ! 0) = Fin 20
   \<and> Inv_Final_Und (rollforward (ej_entorno (Fin 10) (Fin 8)) [] False ! 0) = Fin 0
   \<and> Inv_Inicial_Und (rollforward (ej_entorno (Fin 10) (Fin 8)) [] False ! Suc 0) = Fin 0"
proof -
  have la: "0 < length (rollforward (ej_entorno (Fin 10) (Fin 8)) ej_disp False)"
    "Suc 0 < length (rollforward (ej_entorno (Fin 10) (Fin 8)) ej_disp False)"
    by (simp_all add: ejA_rollforward)
  have ra: "Inv_Inicial_Und (rollforward (ej_entorno (Fin 10) (Fin 8)) ej_disp False ! 0) = Fin 20"
    "Unidades_A_Producir (rollforward (ej_entorno (Fin 10) (Fin 8)) ej_disp False ! 0) = Fin 800"
    "Demanda_semanal (rollforward (ej_entorno (Fin 10) (Fin 8)) ej_disp False ! 0) = Fin 100"
    "Material (rollforward (ej_entorno (Fin 10) (Fin 8)) ej_disp False ! 0) = ''A''"
    "Material (rollforward (ej_entorno (Fin 10) (Fin 8)) ej_disp False ! Suc 0) = ''A''"
    by (simp_all add: ejA_rollforward)
  from C5_venta_con_tope[OF la(1)] la(2)
  have a: "qty_sold estado_inicial (pre_rollforward (ej_entorno (Fin 10) (Fin 8)) ej_disp False ! 0)
             = Fin 100
           \<and> flt_le (Fin 100) (Fin 820)
           \<and> Inv_Final_Und (rollforward (ej_entorno (Fin 10) (Fin 8)) ej_disp False ! 0) = Fin 720
           \<and> Inv_Inicial_Und (rollforward (ej_entorno (Fin 10) (Fin 8)) ej_disp False ! Suc 0) = Fin 720"
    unfolding Let_def estado_en_0 ra by (simp add: fsub_def)
  have lb: "0 < length (rollforward (ej_entorno (Fin 10) (Fin 8)) [] False)"
    "Suc 0 < length (rollforward (ej_entorno (Fin 10) (Fin 8)) [] False)"
    by (simp_all add: ejB_rollforward)
  have rb: "Inv_Inicial_Und (rollforward (ej_entorno (Fin 10) (Fin 8)) [] False ! 0) = Fin 20"
    "Unidades_A_Producir (rollforward (ej_entorno (Fin 10) (Fin 8)) [] False ! 0) = Fin 0"
    "Demanda_semanal (rollforward (ej_entorno (Fin 10) (Fin 8)) [] False ! 0) = Fin 100"
    "Material (rollforward (ej_entorno (Fin 10) (Fin 8)) [] False ! 0) = ''A''"
    "Material (rollforward (ej_entorno (Fin 10) (Fin 8)) [] False ! Suc 0) = ''A''"
    by (simp_all add: ejB_rollforward)
  from C5_venta_con_tope[OF lb(1)] lb(2)
  have b: "qty_sold estado_inicial (pre_rollforward (ej_entorno (Fin 10) (Fin 8)) [] False ! 0) = Fin 20
           \<and> Inv_Final_Und (rollforward (ej_entorno (Fin 10) (Fin 8)) [] False ! 0) = Fin 0
           \<and> Inv_Inicial_Und (rollforward (ej_entorno (Fin 10) (Fin 8)) [] False ! Suc 0) = Fin 0"
    unfolding Let_def estado_en_0 rb by (simp add: fsub_def)
  from la lb a b show ?thesis by simp
qed

text \<open>
  Claim C5 as stated fails on a row whose supply is missing.  For a material that the
  capacity sheet does not have, the opening inventory and the produced units are not
  numbers; the sale is the whole demand, 100, and it is not at most the supply.
\<close>

theorem C5_tope_counterexample:
  "fadd (Inv_Inicial_Und (rollforward ej_entorno_sin_cap ej_disp False ! 0))
        (Unidades_A_Producir (rollforward ej_entorno_sin_cap ej_disp False ! 0)) = NaN
   \<and> Demanda_semanal (rollforward ej_entorno_sin_cap ej_disp False ! 0) = Fin 100
   \<and> qty_sold estado_inicial (pre_rollforward ej_entorno_sin_cap ej_disp False ! 0) = Fin 100
   \<and> \<not> flt_le (Fin 100) NaN"
  by (simp add: ejE_rollforward ejE_pre qty_sold_def total_qty_def qty_ini_def estado_inicial_def
      py_min_def)

section \<open>Weighted-average cost (C6)\<close>







section \<open>From the input sheets to the rows of the loop\<close>






















section \<open>The unguarded division of line 176 (C1)\<close>

text \<open>
  Claim C1 at a sheet with 0 units per hour for the material (demand 100 and 150, 10
  shifts of 8 hours in both weeks).  Line 176 divides without a guard: the required hours
  are infinite, and the allocated hours, the produced units, the variable cost, the
  pallets and the closing inventory of both rows are not numbers.
\<close>

theorem C1_division_sin_guarda:
  "map Horas_Necesarias (df_base_materiales (ej_entorno (Fin 0) (Fin 8))) = [PInf, PInf]
   \<and> map (\<lambda>r. (Horas_Finales_Asignadas r, Unidades_A_Producir r, Costo_variable_total r,
                 Pallets_Requeridos r, Inv_Final_Und r, Inv_Final_Valor r))
        (rollforward (ej_entorno (Fin 0) (Fin 8)) ej_disp False)
       = [(NaN, NaN, NaN, NaN, NaN, NaN), (NaN, NaN, NaN, NaN, NaN, NaN)]"
  by (simp add: ej_base ejC_rollforward inf_signo_def)

section \<open>The parameter resolver (C8)\<close>

lemma ej_float:
  "py_float (VStr ''7.5'') = Some (Fin (15 / 2))"
  "py_float (VStr ''1.2.3'') = None"
  by (simp_all add: py_float_def py_float_str_def strip_float_def es_espacio_float_def quitar_signo_def
      minuscula_def leer_numero_def es_digito_o_guion_def es_digito_def digitpart_ok_def
      leer_exponente_def valor_digitos_def escalar_def Let_def)

lemma ej_strip_params:
  "strip '' Costo fijo '' = ''Costo fijo''" "strip ''Costo fijo'' = ''Costo fijo''"
  "strip ''Costo Capital'' = ''Costo Capital''"
  by (simp_all add: strip_def es_espacio_def)

text \<open>
  Claim C8, as the code has it.  When no row of the table has the requested name (names
  trimmed), the result is the default.  Otherwise the value of the first such row is
  taken, with commas replaced by periods when it is a text; the result is that value as
  a number when \<open>float\<close> accepts it, and that value itself (for a text: the text with the
  commas already replaced) when \<open>float\<close> rejects it.  The function is total: it has no
  error result.
\<close>

theorem C8_obtener_param:
  "((\<forall>r \<in> set df_params. strip (Parametro r) \<noteq> nombre)
      \<longrightarrow> obtener_param df_params nombre d = d)
   \<and> (df_params = antes @ r # despues \<and> (\<forall>a \<in> set antes. strip (Parametro a) \<noteq> nombre)
        \<and> strip (Parametro r) = nombre
      \<longrightarrow> (case py_float (reemplazar_coma (Valor r)) of
             Some x \<Rightarrow> obtener_param df_params nombre d = VNum x
           | None \<Rightarrow> obtener_param df_params nombre d = reemplazar_coma (Valor r)))"
proof (intro conjI impI)
  assume "\<forall>r \<in> set df_params. strip (Parametro r) \<noteq> nombre"
  then have "filter (\<lambda>r. strip (Parametro r) = nombre) df_params = []"
    by (simp add: filter_empty_conv)
  then show "obtener_param df_params nombre d = d"
    by (simp add: obtener_param_def)
next
  assume h: "df_params = antes @ r # despues \<and> (\<forall>a \<in> set antes. strip (Parametro a) \<noteq> nombre)
        \<and> strip (Parametro r) = nombre"
  then have "filter (\<lambda>r. strip (Parametro r) = nombre) antes = []"
    by (simp add: filter_empty_conv)
  with h have "filter (\<lambda>r. strip (Parametro r) = nombre) df_params
                 = r # filter (\<lambda>r. strip (Parametro r) = nombre) despues"
    by simp
  then show "case py_float (reemplazar_coma (Valor r)) of
             Some x \<Rightarrow> obtener_param df_params nombre d = VNum x
           | None \<Rightarrow> obtener_param df_params nombre d = reemplazar_coma (Valor r)"
    by (simp add: obtener_param_def Let_def split: option.split)
qed

lemma ej_espacios:
  "obtener_param ej_params_espacios ''Costo fijo'' VNone = VNum (Fin 12)"
  "obtener_param ej_params_espacios ''Costo Capital'' VNone = VNum (Fin (15 / 2))"
  "obtener_param ej_params_espacios ''Horas por turno'' (VNum (Fin 8)) = VStr (CHR 0x1C # ''7'')"
  by (simp_all add: obtener_param_def ej_params_espacios_def strip_def es_espacio_def
      reemplazar_coma_def replace_coma_def py_float_def py_float_str_def strip_float_def
      es_espacio_float_def quitar_signo_def minuscula_def leer_numero_def es_digito_o_guion_def
      es_digito_def digitpart_ok_def leer_exponente_def valor_digitos_def escalar_def Let_def)

theorem C8_obtener_param_witness:
  "obtener_param ej_params_hoja ''Horas por turno'' (VNum (Fin 8)) = VNum (Fin 8)
   \<and> obtener_param ej_params_hoja ''Costo fijo'' VNone = VNum (Fin (15 / 2))
   \<and> obtener_param ej_params_hoja ''Costo Capital'' VNone = VStr ''1.2.3''
   \<and> obtener_param ej_params_espacios ''Costo fijo'' VNone = VNum (Fin 12)
   \<and> obtener_param ej_params_espacios ''Costo Capital'' VNone = VNum (Fin (15 / 2))
   \<and> obtener_param ej_params_espacios ''Horas por turno'' (VNum (Fin 8))
       = VStr (CHR 0x1C # ''7'')"
proof -
  have n: "\<forall>r \<in> set ej_params_hoja. strip (Parametro r) \<noteq> ''Horas por turno''"
    by (simp add: ej_params_hoja_def ej_strip_params)
  from C8_obtener_param[of ej_params_hoja "''Horas por turno''" "VNum (Fin 8)"] n
  have a: "obtener_param ej_params_hoja ''Horas por turno'' (VNum (Fin 8)) = VNum (Fin 8)"
    by blast
  have m1: "ej_params_hoja = [] @ \<lparr> Parametro = '' Costo fijo '', Valor = VStr ''7,5'' \<rparr>
              # [\<lparr> Parametro = ''Costo fijo'', Valor = VNum (Fin 9) \<rparr>,
                 \<lparr> Parametro = ''Costo Capital'', Valor = VStr ''1,2,3'' \<rparr>]
            \<and> (\<forall>a \<in> set []. strip (Parametro a) \<noteq> ''Costo fijo'')
            \<and> strip (Parametro \<lparr> Parametro = '' Costo fijo '', Valor = VStr ''7,5'' \<rparr>) = ''Costo fijo''"
    by (simp add: ej_params_hoja_def ej_strip_params)
  have f1: "py_float (reemplazar_coma (Valor \<lparr> Parametro = '' Costo fijo '', Valor = VStr ''7,5'' \<rparr>))
              = Some (Fin (15 / 2))"
    by (simp add: reemplazar_coma_def replace_coma_def ej_float)
  from C8_obtener_param[where df_params = ej_params_hoja and antes = "[]"
      and r = "\<lparr> Parametro = '' Costo fijo '', Valor = VStr ''7,5'' \<rparr>"
      and despues = "[\<lparr> Parametro = ''Costo fijo'', Valor = VNum (Fin 9) \<rparr>,
                 \<lparr> Parametro = ''Costo Capital'', Valor = VStr ''1,2,3'' \<rparr>]"
      and nombre = "''Costo fijo''" and d = VNone] m1
  have b: "obtener_param ej_params_hoja ''Costo fijo'' VNone = VNum (Fin (15 / 2))"
    unfolding f1 by simp
  have m2: "ej_params_hoja = [\<lparr> Parametro = '' Costo fijo '', Valor = VStr ''7,5'' \<rparr>,
                 \<lparr> Parametro = ''Costo fijo'', Valor = VNum (Fin 9) \<rparr>]
              @ \<lparr> Parametro = ''Costo Capital'', Valor = VStr ''1,2,3'' \<rparr> # []
            \<and> (\<forall>a \<in> set [\<lparr> Parametro = '' Costo fijo '', Valor = VStr ''7,5'' \<rparr>,
                 \<lparr> Parametro = ''Costo fijo'', Valor = VNum (Fin 9) \<rparr>].
                  strip (Parametro a) \<noteq> ''Costo Capital'')
            \<and> strip (Parametro \<lparr> Parametro = ''Costo Capital'', Valor = VStr ''1,2,3'' \<rparr>) = ''Costo Capital''"
    by (simp add: ej_params_hoja_def ej_strip_params)
  have f2: "reemplazar_coma (Valor \<lparr> Parametro = ''Costo Capital'', Valor = VStr ''1,2,3'' \<rparr>)
              = VStr ''1.2.3''"
    by (simp add: reemplazar_coma_def replace_coma_def)
  from C8_obtener_param[where df_params = ej_params_hoja
      and antes = "[\<lparr> Parametro = '' Costo fijo '', Valor = VStr ''7,5'' \<rparr>,
                 \<lparr> Parametro = ''Costo fijo'', Valor = VNum (Fin 9) \<rparr>]"
      and r = "\<lparr> Parametro = ''Costo Capital'', Valor = VStr ''1,2,3'' \<rparr>"
      and despues = "[]" and nombre = "''Costo Capital''" and d = VNone] m2
  have c: "obtener_param ej_params_hoja ''Costo Capital'' VNone = VStr ''1.2.3''"
    unfolding f2 ej_float by simp
  from a b c ej_espacios show ?thesis by blast
qed

text \<open>
  Claim C8 as stated fails where \<open>float\<close> rejects a text with a comma: the result is not
  the raw value of the row but the text with its commas replaced.
\<close>

theorem C8_valor_crudo_counterexample:
  "Valor (ej_params_hoja ! 2) = VStr ''1,2,3''
   \<and> obtener_param ej_params_hoja ''Costo Capital'' VNone = VStr ''1.2.3''
   \<and> obtener_param ej_params_hoja ''Costo Capital'' VNone \<noteq> Valor (ej_params_hoja ! 2)"
  by (simp add: obtener_param_def ej_params_hoja_def ej_strip_params reemplazar_coma_def
      replace_coma_def ej_float)

section \<open>Which scenarios are run (C10)\<close>

lemma merge_left_vacio: "merge_left ka kb xs ys = [] \<longleftrightarrow> xs = []"
proof (cases xs)
  case Nil
  then show ?thesis by (simp add: merge_left_def)
next
  case (Cons x xs')
  then show ?thesis by (cases "filter (\<lambda>y. kb y = ka x) ys") (simp_all add: merge_left_def)
qed

lemma sort_key_vacio: "sort_key f xs = [] \<longleftrightarrow> xs = []"
  by (metis length_sort length_0_conv)

lemma rollforward_vacio:
  "rollforward E d m = [] \<longleftrightarrow> df_base_materiales E = []"
proof -
  have "rollforward E d m = [] \<longleftrightarrow> pre_rollforward E d m = []"
    by (metis bucle_length length_0_conv rollforward_def)
  also have "\<dots> \<longleftrightarrow> asignacion E d m = []"
    by (simp add: pre_rollforward_def ordenar_def costeo_def merge_left_vacio sort_key_vacio)
  also have "\<dots> \<longleftrightarrow> df_base_materiales E = []"
    by (simp add: asignacion_def merge_left_vacio)
  finally show ?thesis .
qed

lemma claves_vacio: "claves ks = [] \<longleftrightarrow> ks = []"
proof -
  have "set (claves ks) = set ks" by (simp add: claves_def)
  then show ?thesis by (metis set_empty)
qed

lemma resumen_agrupado_vacio: "resumen_agrupado E n df = [] \<longleftrightarrow> df = []"
proof -
  define g where "g = sort_key (\<lambda>r. clave_orden (sem_Semana_Num r)) (map (agrupar df) (claves (map Semana df)))"
  have lg: "length g = length (claves (map Semana df))" by (simp add: g_def)
  have "length (resumen_agrupado E n df) = length g"
    unfolding resumen_agrupado_def Let_def g_def[symmetric]
    by (cases g) simp_all
  then have "resumen_agrupado E n df = [] \<longleftrightarrow> claves (map Semana df) = []"
    using lg by (metis length_0_conv)
  then show ?thesis by (simp add: claves_vacio)
qed

lemma sem_Escenario_derivar: "sem_Escenario (derivar E n gp) = n"
  by (simp add: derivar_def Let_def fila_grupo.defs fila_semanal.defs)

lemma resumen_agrupado_nombres:
  "set (map sem_Escenario (resumen_agrupado E n df)) = (if df = [] then {} else {n})"
proof (cases "df = []")
  case True
  then show ?thesis using resumen_agrupado_vacio[of E n df] by simp
next
  case False
  then have ne: "resumen_agrupado E n df \<noteq> []" by (simp add: resumen_agrupado_vacio)
  have "\<And>r. r \<in> set (resumen_agrupado E n df) \<Longrightarrow> sem_Escenario r = n"
    by (auto simp add: resumen_agrupado_def Let_def sem_Escenario_derivar)
  then have "set (map sem_Escenario (resumen_agrupado E n df)) \<subseteq> {n}" by auto
  moreover have "set (map sem_Escenario (resumen_agrupado E n df)) \<noteq> {}" using ne by simp
  ultimately have "set (map sem_Escenario (resumen_agrupado E n df)) = {n}"
    by (meson subset_singletonD)
  then show ?thesis using False by simp
qed

lemma calcular_nombres:
  "set (map Escenario (fst (calcular_escenario E n d m)))
     = (if df_base_materiales E = [] then {} else {n})"
  "set (map sem_Escenario (snd (calcular_escenario E n d m)))
     = (if df_base_materiales E = [] then {} else {n})"
proof -
  have "map Escenario (fst (calcular_escenario E n d m)) = map (\<lambda>r. n) (rollforward E d m)"
    by (simp add: calcular_escenario_def Let_def fila_inv.defs fila_final.defs)
  then show "set (map Escenario (fst (calcular_escenario E n d m)))
     = (if df_base_materiales E = [] then {} else {n})"
    using rollforward_vacio[of E d m] by (cases "rollforward E d m") auto
  show "set (map sem_Escenario (snd (calcular_escenario E n d m)))
     = (if df_base_materiales E = [] then {} else {n})"
    by (simp add: calcular_escenario_def Let_def resumen_agrupado_nombres rollforward_vacio
        del: set_map)
qed

lemma master_nombres:
  assumes "df_base_materiales E \<noteq> []"
  shows "set (map Escenario (df_master_materiales E d)) = nombres_ejecutados d"
    and "set (map sem_Escenario (df_master_semanal E d)) = nombres_ejecutados d"
proof -
  have a: "set (map Escenario (df_master_materiales E d))
     = (\<Union>t \<in> set (ejecucion E d). set (map Escenario (fst t)))"
    by (auto simp add: df_master_materiales_def)
  show "set (map Escenario (df_master_materiales E d)) = nombres_ejecutados d"
    unfolding a using assms
    by (cases "disp_Paro_programado d"; cases "disp_No_paro d")
       (auto simp add: ejecucion_def calcular_nombres nombres_ejecutados_def simp del: set_map)
  have b: "set (map sem_Escenario (df_master_semanal E d))
     = (\<Union>t \<in> set (ejecucion E d). set (map sem_Escenario (snd t)))"
    by (auto simp add: df_master_semanal_def)
  show "set (map sem_Escenario (df_master_semanal E d)) = nombres_ejecutados d"
    unfolding b using assms
    by (cases "disp_Paro_programado d"; cases "disp_No_paro d")
       (auto simp add: ejecucion_def calcular_nombres nombres_ejecutados_def simp del: set_map)
qed

lemma unique_set: "set (unique xs) = set xs"
  by (simp add: unique_def)

lemma tabla_comparativa_nombres:
  assumes "df \<noteq> []"
  shows "\<exists>t. tabla_comparativa df = Inr t \<and> set (map tc_Escenario t) = set (map sem_Escenario df)"
proof -
  have ne: "deltas df \<noteq> []"
    using assms unique_set[of "map sem_Escenario df"]
    by (auto simp add: deltas_def simp del: unique_set)
  have "fst ` set (deltas df) = set (unique (map sem_Escenario df))"
    by (force simp add: deltas_def)
  then have k: "fst ` set (deltas df) = set (map sem_Escenario df)"
    by (simp only: unique_set)
  have "tc_Escenario ` set (totales_escenario df) = set (claves (map sem_Escenario df))"
    by (force simp add: totales_escenario_def Let_def)
  then have tk: "tc_Escenario ` set (totales_escenario df) = set (map sem_Escenario df)"
    by (simp add: claves_def)
  have sel: "\<And>a b. tc_Escenario (fila_comp.extend a b) = tc_Escenario a"
    by (simp add: fila_comp.defs)
  have "set (map tc_Escenario
          (map (\<lambda>td. fila_comp.extend (fst td)
                             (fila_comparativa.fields (snd (snd td))
                                (fadd (fadd (tc_CMV_Total (fst td)) (tc_Costo_Capital_Total (fst td)))
                                   (snd (snd td)))))
             (merge_inner tc_Escenario fst (totales_escenario df) (deltas df))))
        = (tc_Escenario \<circ> fst) ` set (merge_inner tc_Escenario fst (totales_escenario df) (deltas df))"
    by (simp add: sel image_image comp_def)
  also have "\<dots> = set (map sem_Escenario df)"
  proof
    show "(tc_Escenario \<circ> fst) ` set (merge_inner tc_Escenario fst (totales_escenario df) (deltas df))
            \<subseteq> set (map sem_Escenario df)"
      using tk by (auto simp add: merge_inner_def)
    show "set (map sem_Escenario df)
            \<subseteq> (tc_Escenario \<circ> fst) ` set (merge_inner tc_Escenario fst (totales_escenario df) (deltas df))"
    proof
      fix e assume "e \<in> set (map sem_Escenario df)"
      then obtain x y where x: "x \<in> set (totales_escenario df)" "tc_Escenario x = e"
        and y: "y \<in> set (deltas df)" "fst y = e"
        using tk k by (metis imageE)
      then have "(x, y) \<in> set (merge_inner tc_Escenario fst (totales_escenario df) (deltas df))"
        by (auto simp add: merge_inner_def)
      then show "e \<in> (tc_Escenario \<circ> fst) ` set (merge_inner tc_Escenario fst (totales_escenario df) (deltas df))"
        using x by force
    qed
  qed
  finally show ?thesis using ne by (simp add: tabla_comparativa_def del: set_map)
qed

lemma master_semanal_vacio:
  "df_master_semanal E d = [] \<longleftrightarrow> df_base_materiales E = []"
proof -
  have "snd (calcular_escenario E ''Siguiendo Demanda'' [] True) = [] \<longleftrightarrow> df_base_materiales E = []"
    by (simp add: calcular_escenario_def Let_def resumen_agrupado_vacio rollforward_vacio)
  moreover have "\<And>n dd m. df_base_materiales E = [] \<Longrightarrow> snd (calcular_escenario E n dd m) = []"
    by (simp add: calcular_escenario_def Let_def resumen_agrupado_vacio rollforward_vacio)
  ultimately show ?thesis
    by (cases "disp_Paro_programado d"; cases "disp_No_paro d")
       (auto simp add: df_master_semanal_def ejecucion_def)
qed

text \<open>
  Claim C10.  The list of runs has one entry for the column \<open>Paro programado\<close> when the
  availability sheet has it, one for \<open>No paro\<close> when the sheet has it, and always the
  demand-driven one.  When the production sheet has at least one row, the scenario names
  that occur in the table of materials, in the weekly table and in the comparison table
  are exactly those of the runs made: \<open>Paro Programado\<close> if and only if the first column
  is present, \<open>No Paro (Full)\<close> if and only if the second is, and \<open>Siguiendo Demanda\<close>
  always; and the comparison table is built without an error.
\<close>

theorem C10_escenarios_ejecutados:
  assumes "df_base_materiales E \<noteq> []"
  shows "length (ejecucion E d)
           = (if disp_Paro_programado d = None then 0 else 1)
             + (if disp_No_paro d = None then 0 else 1) + 1
         \<and> set (map Escenario (df_master_materiales E d)) = nombres_ejecutados d
         \<and> set (map sem_Escenario (df_master_semanal E d)) = nombres_ejecutados d
         \<and> (\<exists>t. tabla_comparativa (df_master_semanal E d) = Inr t
                \<and> set (map tc_Escenario t) = nombres_ejecutados d)
         \<and> (''Paro Programado'' \<in> nombres_ejecutados d \<longleftrightarrow> disp_Paro_programado d \<noteq> None)
         \<and> (''No Paro (Full)'' \<in> nombres_ejecutados d \<longleftrightarrow> disp_No_paro d \<noteq> None)
         \<and> ''Siguiendo Demanda'' \<in> nombres_ejecutados d"
proof -
  have l: "length (ejecucion E d)
           = (if disp_Paro_programado d = None then 0 else 1)
             + (if disp_No_paro d = None then 0 else 1) + 1"
    by (cases "disp_Paro_programado d"; cases "disp_No_paro d") (simp_all add: ejecucion_def)
  have ne: "df_master_semanal E d \<noteq> []" using assms by (simp add: master_semanal_vacio)
  have t: "\<exists>t. tabla_comparativa (df_master_semanal E d) = Inr t
                \<and> set (map tc_Escenario t) = nombres_ejecutados d"
    using tabla_comparativa_nombres[OF ne] master_nombres(2)[OF assms, of d] by simp
  have n: "(''Paro Programado'' \<in> nombres_ejecutados d \<longleftrightarrow> disp_Paro_programado d \<noteq> None)"
    "(''No Paro (Full)'' \<in> nombres_ejecutados d \<longleftrightarrow> disp_No_paro d \<noteq> None)"
    "''Siguiendo Demanda'' \<in> nombres_ejecutados d"
    by (simp_all add: nombres_ejecutados_def)
  from l master_nombres[OF assms, of d] t n show ?thesis by blast
qed

theorem C10_escenarios_ejecutados_witness:
  "length (ejecucion (ej_entorno (Fin 10) (Fin 8)) ej_hoja_disp) = 2
   \<and> set (map Escenario (df_master_materiales (ej_entorno (Fin 10) (Fin 8)) ej_hoja_disp))
       = {''Paro Programado'', ''Siguiendo Demanda''}
   \<and> set (map sem_Escenario (df_master_semanal (ej_entorno (Fin 10) (Fin 8)) ej_hoja_disp))
       = {''Paro Programado'', ''Siguiendo Demanda''}
   \<and> (\<exists>t. tabla_comparativa (df_master_semanal (ej_entorno (Fin 10) (Fin 8)) ej_hoja_disp) = Inr t
          \<and> set (map tc_Escenario t) = {''Paro Programado'', ''Siguiendo Demanda''})"
proof -
  have b: "df_base_materiales (ej_entorno (Fin 10) (Fin 8)) \<noteq> []" by (simp add: ej_base)
  have n: "nombres_ejecutados ej_hoja_disp = {''Paro Programado'', ''Siguiendo Demanda''}"
    by (auto simp add: nombres_ejecutados_def ej_hoja_disp_def)
  have c: "disp_Paro_programado ej_hoja_disp \<noteq> None" "disp_No_paro ej_hoja_disp = None"
    by (simp_all add: ej_hoja_disp_def)
  from C10_escenarios_ejecutados[OF b, of ej_hoja_disp] show ?thesis
    unfolding n using c by (simp add: insert_commute)
qed

section \<open>Scenario comparison (C7)\<close>


























section \<open>Continuity of the rollforward (C2)\<close>









section \<open>Allocated hours of a week (C3)\<close>


















end
